theory Spec2Isabelle
  imports Main
begin

section \<open>JavaScript values and the runtime operations the program relies on\<close>

text \<open>
  The program (src/index.js) is a Node.js script.  The data it works on are the values
  returned by \<^verbatim>\<open>res.json()\<close>: the type \<open>'n js_value\<close> holds them, with
  \<open>JUndefined\<close> for the result of reading a property that is not there.  The type
  parameter \<open>'n\<close> stands for the number values other than NaN; NaN itself only arises
  as the \<open>None\<close> result of a conversion.  An object is the list of its own properties
  in the order \<^verbatim>\<open>Object.keys\<close> lists them.
\<close>

datatype error = TypeError

datatype 'n js_value =
    JUndefined
  | JNull
  | JBool bool
  | JNum 'n
  | JStr string
  | JArr "'n js_value list"
  | JObj "(string \<times> 'n js_value) list"

text \<open>Sequencing of computations that may throw: the first exception is the result.\<close>

definition bind_res :: "error + 'a \<Rightarrow> ('a \<Rightarrow> error + 'b) \<Rightarrow> error + 'b" where
  "bind_res r f = (case r of Inl e \<Rightarrow> Inl e | Inr x \<Rightarrow> f x)"

text \<open>
  \<^verbatim>\<open>v[k]\<close> and \<^verbatim>\<open>v.k\<close> for a property name \<open>k\<close> that no prototype defines (this
  holds for every name the program reads: observation_time, weather_code, temp,
  humidity, wind_speed, value, units and the six indicators).  Reading a property of
  \<^verbatim>\<open>undefined\<close> or \<^verbatim>\<open>null\<close> throws a TypeError; reading a missing property of
  anything else, a primitive included, gives \<^verbatim>\<open>undefined\<close>.
\<close>

fun getp :: "'n js_value \<Rightarrow> string \<Rightarrow> error + 'n js_value" where
  "getp JUndefined k = Inl TypeError"
| "getp JNull k = Inl TypeError"
| "getp (JObj kvs) k = Inr (case map_of kvs k of None \<Rightarrow> JUndefined | Some v \<Rightarrow> v)"
| "getp v k = Inr JUndefined"

text \<open>
  What the host supplies and the source does not contain: the text of a number
  (\<^verbatim>\<open>`${n}`\<close>), the number read from a string (NaN is \<open>None\<close>), the time value in
  milliseconds since the epoch that \<^verbatim>\<open>new Date(v)\<close> holds (\<open>None\<close> for an invalid
  date), and the offset of local time from UTC in milliseconds, as the language
  definition has it: \<open>LocalTZA t True\<close> is the offset in force at the instant \<open>t\<close>, and
  \<open>LocalTZA t False\<close> the offset the host uses for the local time value \<open>t\<close>.  The two
  differ around a clock change of the zone.
\<close>

record 'n js_runtime =
  NumberToString :: "'n \<Rightarrow> string"
  StringToNumber :: "string \<Rightarrow> 'n option"
  newDate :: "'n js_value \<Rightarrow> int option"
  LocalTZA :: "int \<Rightarrow> bool \<Rightarrow> int"

fun join_comma :: "string list \<Rightarrow> string" where
  "join_comma [] = []"
| "join_comma [s] = s"
| "join_comma (s # t # ss) = s @ '','' @ join_comma (t # ss)"

text \<open>\<^verbatim>\<open>`${v}`\<close>: the string a template literal puts in for the value \<open>v\<close>.\<close>

fun ToString :: "('n \<Rightarrow> string) \<Rightarrow> 'n js_value \<Rightarrow> string" where
  "ToString n2s JUndefined = ''undefined''"
| "ToString n2s JNull = ''null''"
| "ToString n2s (JBool b) = (if b then ''true'' else ''false'')"
| "ToString n2s (JNum n) = n2s n"
| "ToString n2s (JStr s) = s"
| "ToString n2s (JArr xs) =
     join_comma (map (\<lambda>x. if x = JUndefined \<or> x = JNull then [] else ToString n2s x) xs)"
| "ToString n2s (JObj kvs) = ''[object Object]''"

text \<open>The number a comparison converts its operand to; \<open>None\<close> is NaN.\<close>

definition ToNumber :: "('n::linordered_idom) js_runtime \<Rightarrow> 'n js_value \<Rightarrow> 'n option" where
  "ToNumber rt v =
     (case v of
        JUndefined \<Rightarrow> None
      | JNull \<Rightarrow> Some 0
      | JBool b \<Rightarrow> Some (if b then 1 else 0)
      | JNum n \<Rightarrow> Some n
      | JStr s \<Rightarrow> StringToNumber rt s
      | JArr xs \<Rightarrow> StringToNumber rt (ToString (NumberToString rt) v)
      | JObj kvs \<Rightarrow> None)"

text \<open>
  \<^verbatim>\<open>v > thresholds[k]\<close>, where the right operand is a number of the table or, for a
  key the table does not have, \<^verbatim>\<open>undefined\<close> (\<open>None\<close>).  The operands are never both
  strings, so both are converted to numbers, and a comparison with NaN is false.
\<close>

definition js_gt :: "('n::linordered_idom) js_runtime \<Rightarrow> 'n js_value \<Rightarrow> 'n option \<Rightarrow> bool" where
  "js_gt rt v th =
     (case th of
        None \<Rightarrow> False
      | Some t \<Rightarrow> (case ToNumber rt v of None \<Rightarrow> False | Some x \<Rightarrow> t < x))"

text \<open>The decimal text of an array index, as \<^verbatim>\<open>`${i}`\<close> gives it.\<close>

definition digit_char :: "nat \<Rightarrow> char" where
  "digit_char d = ''0123456789'' ! d"

function show_nat :: "nat \<Rightarrow> string" where
  "show_nat n = (if n < 10 then [digit_char n] else show_nat (n div 10) @ [digit_char (n mod 10)])"
  by pat_completeness auto
termination
  by (relation "measure id") auto

declare show_nat.simps [simp del]

definition push :: "'a list \<Rightarrow> 'a \<Rightarrow> 'a list" where
  "push arr x = arr @ [x]"

text \<open>
  \<^verbatim>\<open>arr.forEach((e, i) => { ... outputArr.push(output) })\<close> from index \<open>i\<close> on, where
  \<open>body e i\<close> is the element pushed or the exception thrown on the way, and \<open>outputArr\<close>
  the array built so far.
\<close>

fun forEach_push :: "('a \<Rightarrow> nat \<Rightarrow> error + 'b) \<Rightarrow> nat \<Rightarrow> 'a list \<Rightarrow> 'b list \<Rightarrow> error + 'b list" where
  "forEach_push body i [] outputArr = Inr outputArr"
| "forEach_push body i (e # es) outputArr =
     (case body e i of
        Inl err \<Rightarrow> Inl err
      | Inr output \<Rightarrow> forEach_push body (Suc i) es (push outputArr output))"

subsection \<open>Dates\<close>

text \<open>
  A valid Date is its time value \<open>t\<close>, the milliseconds since 1970-01-01T00:00:00Z
  (within the range of Date, so that TimeClip changes nothing); an invalid one is
  \<open>None\<close> and its getters return NaN.  The functions are those of the language
  definition; the day of the month is computed from the day number with the usual
  400-year-era arithmetic.
\<close>

definition msPerDay :: int where
  "msPerDay = 86400000"

definition Day :: "int \<Rightarrow> int" where
  "Day t = t div msPerDay"

definition TimeWithinDay :: "int \<Rightarrow> int" where
  "TimeWithinDay t = t mod msPerDay"

definition HourFromTime :: "int \<Rightarrow> int" where
  "HourFromTime t = (t div 3600000) mod 24"

definition MinFromTime :: "int \<Rightarrow> int" where
  "MinFromTime t = (t div 60000) mod 60"

definition SecFromTime :: "int \<Rightarrow> int" where
  "SecFromTime t = (t div 1000) mod 60"

definition msFromTime :: "int \<Rightarrow> int" where
  "msFromTime t = t mod 1000"

definition WeekDay :: "int \<Rightarrow> int" where
  "WeekDay t = (Day t + 4) mod 7"

definition day_of_month :: "int \<Rightarrow> int" where
  "day_of_month d =
     (let doe = (d + 719468) mod 146097;
          yoe = (doe - doe div 1460 + doe div 36524 - doe div 146096) div 365;
          doy = doe - (365 * yoe + yoe div 4 - yoe div 100);
          mp = (5 * doy + 2) div 153
      in doy - (153 * mp + 2) div 5 + 1)"

definition DateFromTime :: "int \<Rightarrow> int" where
  "DateFromTime t = day_of_month (Day t)"

definition LocalTime :: "'n js_runtime \<Rightarrow> int \<Rightarrow> int" where
  "LocalTime rt t = t + LocalTZA rt t True"

definition UTC :: "'n js_runtime \<Rightarrow> int \<Rightarrow> int" where
  "UTC rt t = t - LocalTZA rt t False"

definition MakeTime :: "int \<Rightarrow> int \<Rightarrow> int \<Rightarrow> int \<Rightarrow> int" where
  "MakeTime h m s ms = h * 3600000 + m * 60000 + s * 1000 + ms"

definition MakeDate :: "int \<Rightarrow> int \<Rightarrow> int" where
  "MakeDate day time = day * msPerDay + time"

definition getHours :: "'n js_runtime \<Rightarrow> int option \<Rightarrow> int option" where
  "getHours rt d = map_option (\<lambda>t. HourFromTime (LocalTime rt t)) d"

definition getDay :: "'n js_runtime \<Rightarrow> int option \<Rightarrow> int option" where
  "getDay rt d = map_option (\<lambda>t. WeekDay (LocalTime rt t)) d"

definition getDate :: "'n js_runtime \<Rightarrow> int option \<Rightarrow> int option" where
  "getDate rt d = map_option (\<lambda>t. DateFromTime (LocalTime rt t)) d"

text \<open>\<^verbatim>\<open>xs.includes(x)\<close> and \<^verbatim>\<open>x == y\<close> on numbers: NaN is in no list and equals nothing.\<close>

definition includes_num :: "int list \<Rightarrow> int option \<Rightarrow> bool" where
  "includes_num xs x = (case x of None \<Rightarrow> False | Some n \<Rightarrow> n \<in> set xs)"

definition eq_num :: "int option \<Rightarrow> int option \<Rightarrow> bool" where
  "eq_num x y = (case x of None \<Rightarrow> False | Some n \<Rightarrow> y = Some n)"

section \<open>The program\<close>

subsection \<open>Globals\<close>

definition AIR_QUALITY_INDICATOR :: "string list" where
  "AIR_QUALITY_INDICATOR = [''pm10'', ''pm25'', ''o3'', ''no2'', ''co'', ''so2'']"

subsection \<open>queryBuilder (lines 31-51)\<close>

text \<open>
  The two places that add a parameter do the same: unless the last character of the
  request so far is \<^verbatim>\<open>?\<close>, an \<^verbatim>\<open>&\<close> is added, then \<^verbatim>\<open>key=text\<close>.  (On an empty
  request \<^verbatim>\<open>request[request.length - 1]\<close> is \<^verbatim>\<open>undefined\<close>, which differs from
  \<^verbatim>\<open>"?"\<close>.)
\<close>

definition add_param :: "string \<Rightarrow> string \<Rightarrow> string \<Rightarrow> string" where
  "add_param request key text =
     (if request = [] \<or> last request \<noteq> CHR ''?'' then request @ ''&'' else request)
       @ key @ ''='' @ text"

text \<open>The text of a value whose \<^verbatim>\<open>typeof\<close> is "number" or "string"; \<open>None\<close> for any other.\<close>

definition scalar_text :: "('n \<Rightarrow> string) \<Rightarrow> 'n js_value \<Rightarrow> string option" where
  "scalar_text n2s v = (case v of JNum n \<Rightarrow> Some (n2s n) | JStr s \<Rightarrow> Some s | _ \<Rightarrow> None)"

definition add_key :: "('n \<Rightarrow> string) \<Rightarrow> (string \<times> 'n js_value) list \<Rightarrow> string \<Rightarrow> string \<Rightarrow> string" where
  "add_key n2s options request key =
     (case map_of options key of
        None \<Rightarrow> request
      | Some v \<Rightarrow>
          (case scalar_text n2s v of
             Some text \<Rightarrow> add_param request key text
           | None \<Rightarrow>
               (case v of
                  JArr es \<Rightarrow>
                    foldl (\<lambda>request e.
                        case scalar_text n2s e of
                          Some text \<Rightarrow> add_param request key text
                        | None \<Rightarrow> request)
                      request es
                | _ \<Rightarrow> request)))"

definition queryBuilder :: "('n \<Rightarrow> string) \<Rightarrow> string \<Rightarrow> (string \<times> 'n js_value) list \<Rightarrow> string" where
  "queryBuilder n2s request options =
     foldl (add_key n2s options) (request @ ''?'') (map fst options)"

subsection \<open>formatWeatherData (lines 85-108)\<close>

record 'n weather_entry =
  hour :: "int option"
  weather_image :: string
  cid :: string
  temp :: "'n js_value"
  temp_unit :: "'n js_value"
  humidity :: "'n js_value"
  humidity_unit :: "'n js_value"
  wind_speed :: "'n js_value"
  wind_speed_unit :: "'n js_value"

text \<open>
  The body of the \<^verbatim>\<open>forEach\<close> callback for the record \<open>e\<close> at index \<open>i\<close>: the
  property reads in the order of the source, each of which may throw.
\<close>

definition formatWeatherEntry :: "'n js_runtime \<Rightarrow> 'n js_value \<Rightarrow> nat \<Rightarrow> error + 'n weather_entry" where
  "formatWeatherEntry rt e i =
     bind_res (getp e ''observation_time'') (\<lambda>ot.
     bind_res (getp ot ''value'') (\<lambda>otv.
     bind_res (getp e ''weather_code'') (\<lambda>wc.
     bind_res (getp wc ''value'') (\<lambda>wcv.
     bind_res (getp e ''temp'') (\<lambda>t.
     bind_res (getp t ''value'') (\<lambda>tv.
     bind_res (getp t ''units'') (\<lambda>tu.
     bind_res (getp e ''humidity'') (\<lambda>h.
     bind_res (getp h ''value'') (\<lambda>hv.
     bind_res (getp h ''units'') (\<lambda>hu.
     bind_res (getp e ''wind_speed'') (\<lambda>w.
     bind_res (getp w ''value'') (\<lambda>wv.
     bind_res (getp w ''units'') (\<lambda>wu.
       Inr \<lparr>hour = getHours rt (newDate rt otv),
            weather_image = ''./summary-icons/'' @ ToString (NumberToString rt) wcv @ ''.png'',
            cid = ''wid'' @ show_nat i,
            temp = tv, temp_unit = tu,
            humidity = hv, humidity_unit = hu,
            wind_speed = wv, wind_speed_unit = wu\<rparr>)))))))))))))"

definition formatWeatherData :: "'n js_runtime \<Rightarrow> 'n js_value list \<Rightarrow> error + 'n weather_entry list" where
  "formatWeatherData rt data = forEach_push (formatWeatherEntry rt) 0 data []"

subsection \<open>formatAirQualityData (lines 111-125)\<close>

record 'n air_entry =
  indicator :: string
  current_value :: "'n js_value"
  air_image :: string
  cid :: string

text \<open>The body of the \<^verbatim>\<open>forEach\<close> callback for the indicator \<open>ind\<close> at index \<open>i\<close>.\<close>

definition airQualityBox :: "'n js_value \<Rightarrow> string \<Rightarrow> nat \<Rightarrow> error + 'n air_entry" where
  "airQualityBox airQualityData ind i =
     bind_res (getp airQualityData ind) (\<lambda>reading.
     bind_res (getp reading ''value'') (\<lambda>v.
       Inr \<lparr>indicator = ind,
            current_value = v,
            air_image = ''./legends/'' @ ind @ ''-legend.png'',
            cid = ''aid'' @ show_nat i\<rparr>))"

definition formatAirQualityData :: "'n js_value \<Rightarrow> error + 'n air_entry list" where
  "formatAirQualityData airQualityData =
     forEach_push (airQualityBox airQualityData) 0 AIR_QUALITY_INDICATOR []"

subsection \<open>The two emails (lines 128-177)\<close>

text \<open>
  An email is recorded as what the program hands to the template and to the
  transport: the subject, the data the template is rendered with and the attachments.
  Reading the template, rendering it and the transport itself are outside the model.
\<close>

record attachment =
  path :: string
  cid :: string

datatype 'n replacements =
    ForecastReplacements "'n weather_entry list" "'n air_entry list"
  | AlertReplacements "'n air_entry list"

record 'n mailOptions =
  subject :: string
  html_of :: "'n replacements"
  attachments :: "attachment list"

definition sendWeatherForecastEmail ::
  "'n weather_entry list \<Rightarrow> 'n air_entry list \<Rightarrow> attachment list \<Rightarrow> 'n mailOptions" where
  "sendWeatherForecastEmail weatherData airQualityData atts =
     \<lparr>subject = ''Weather forecast for today and current air quality'',
      html_of = ForecastReplacements weatherData airQualityData,
      attachments = atts\<rparr>"

definition sendAirQualityEmailAlert :: "'n air_entry list \<Rightarrow> attachment list \<Rightarrow> 'n mailOptions" where
  "sendAirQualityEmailAlert airQualityData atts =
     \<lparr>subject = ''An air quality limit has been exceeded'',
      html_of = AlertReplacements airQualityData,
      attachments = atts\<rparr>"

subsection \<open>weatherForecastJob (lines 180-221)\<close>

definition desiredHours :: "int list" where
  "desiredHours = [8, 10, 12, 14, 16, 18, 20, 22]"

text \<open>
  The callback of \<^verbatim>\<open>weatherData.filter\<close>.  \<open>now\<close> is the time value of
  \<^verbatim>\<open>new Date()\<close>, taken as the same for every record of one run.
\<close>

definition desired :: "'n js_runtime \<Rightarrow> int \<Rightarrow> 'n js_value \<Rightarrow> error + bool" where
  "desired rt now e =
     bind_res (getp e ''observation_time'') (\<lambda>ot.
     bind_res (getp ot ''value'') (\<lambda>v.
       Inr (includes_num desiredHours (getHours rt (newDate rt v))
            \<and> eq_num (getDay rt (newDate rt v)) (getDay rt (Some now)))))"

text \<open>\<^verbatim>\<open>Array.prototype.filter\<close> with a callback that may throw.\<close>

fun filter_res :: "('a \<Rightarrow> error + bool) \<Rightarrow> 'a list \<Rightarrow> error + 'a list" where
  "filter_res p [] = Inr []"
| "filter_res p (x # xs) =
     (case p x of
        Inl err \<Rightarrow> Inl err
      | Inr b \<Rightarrow>
          (case filter_res p xs of
             Inl err \<Rightarrow> Inl err
           | Inr ys \<Rightarrow> Inr (if b then x # ys else ys)))"

definition desiredWeatherData :: "'n js_runtime \<Rightarrow> int \<Rightarrow> 'n js_value \<Rightarrow> error + 'n js_value list" where
  "desiredWeatherData rt now weatherData =
     (case weatherData of
        JArr records \<Rightarrow> filter_res (desired rt now) records
      | _ \<Rightarrow> Inl TypeError)"

definition forecastAttachments :: "'n weather_entry list \<Rightarrow> 'n air_entry list \<Rightarrow> attachment list" where
  "forecastAttachments formattedWeatherData formattedAirQualityData =
     foldl (\<lambda>atts e. push atts \<lparr>path = air_image e, cid = air_entry.cid e\<rparr>)
       (foldl (\<lambda>atts e. push atts \<lparr>path = weather_image e, cid = weather_entry.cid e\<rparr>)
          [] formattedWeatherData)
       formattedAirQualityData"

text \<open>
  The job, from the two fetched values on (the fetches are outside the model): the
  result is the email handed to the transport, or the exception thrown before.
\<close>

definition weatherForecastJob ::
  "'n js_runtime \<Rightarrow> int \<Rightarrow> 'n js_value \<Rightarrow> 'n js_value \<Rightarrow> error + 'n mailOptions" where
  "weatherForecastJob rt now airQualityData weatherData =
     bind_res (desiredWeatherData rt now weatherData) (\<lambda>desiredData.
     bind_res (formatWeatherData rt desiredData) (\<lambda>formattedWeatherData.
     bind_res (formatAirQualityData airQualityData) (\<lambda>formattedAirQualityData.
       Inr (sendWeatherForecastEmail formattedWeatherData formattedAirQualityData
              (forecastAttachments formattedWeatherData formattedAirQualityData)))))"

subsection \<open>airQualityAlertJob (lines 224-256)\<close>

definition thresholds :: "string \<Rightarrow> ('n::linordered_idom) option" where
  "thresholds =
     map_of [(''co'', 7000), (''no2'', 230), (''o3'', 145), (''pm10'', 204), (''pm25'', 45),
             (''so2'', 131)]"

text \<open>
  The filter of line 238; \<open>table k\<close> is \<^verbatim>\<open>thresholds[k]\<close>, with \<open>None\<close> for a key the
  table does not have (the keys looked up are indicator names, none of which is a member
  of \<^verbatim>\<open>Object.prototype\<close>).  The job applies it to the table of lines 229-236.
\<close>

definition alertsForTheseIndicators ::
  "('n::linordered_idom) js_runtime \<Rightarrow> (string \<Rightarrow> 'n option) \<Rightarrow> 'n air_entry list \<Rightarrow> 'n air_entry list" where
  "alertsForTheseIndicators rt table formattedAirQualityData =
     filter (\<lambda>e. js_gt rt (current_value e) (table (indicator e))) formattedAirQualityData"

definition alertAttachments :: "'n air_entry list \<Rightarrow> attachment list" where
  "alertAttachments alerts =
     foldl (\<lambda>atts e. push atts \<lparr>path = air_image e, cid = air_entry.cid e\<rparr>) [] alerts"

text \<open>The job from the fetched value on; the result is the email sent, if any.\<close>

definition airQualityAlertJob ::
  "('n::linordered_idom) js_runtime \<Rightarrow> 'n js_value \<Rightarrow> error + 'n mailOptions option" where
  "airQualityAlertJob rt airQualityData =
     bind_res (formatAirQualityData airQualityData) (\<lambda>formattedAirQualityData.
       let alerts = alertsForTheseIndicators rt thresholds formattedAirQualityData
       in if length alerts \<noteq> 0
          then Inr (Some (sendAirQualityEmailAlert alerts (alertAttachments alerts)))
          else Inr None)"

subsection \<open>main: the forecast timeline (lines 259-300)\<close>

text \<open>
  \<^verbatim>\<open>d.setHours(h, m, s)\<close> and \<^verbatim>\<open>d.setDate(dt)\<close> on a valid date with time value
  \<open>t\<close>, each returning the new time value.  \<^verbatim>\<open>setHours\<close> with three arguments keeps
  the milliseconds of \<open>t\<close>; \<^verbatim>\<open>setDate\<close> keeps the year, the month and the time within
  the day, and day \<open>dt\<close> of the month is \<open>dt - 1\<close> days after its first day.
\<close>

definition setHours :: "'n js_runtime \<Rightarrow> int \<Rightarrow> int \<Rightarrow> int \<Rightarrow> int \<Rightarrow> int" where
  "setHours rt t h m s =
     (let lt = LocalTime rt t
      in UTC rt (MakeDate (Day lt) (MakeTime h m s (msFromTime lt))))"

definition setDate :: "'n js_runtime \<Rightarrow> int \<Rightarrow> int \<Rightarrow> int" where
  "setDate rt t dt =
     (let lt = LocalTime rt t
      in UTC rt (MakeDate (Day lt - (DateFromTime lt - 1) + (dt - 1)) (TimeWithinDay lt)))"

definition oneDayInMs :: int where
  "oneDayInMs = 86400000"

text \<open>
  Lines 266-276, with \<open>now\<close> the reading of the clock: the startup code runs without a
  pause, and every \<^verbatim>\<open>new Date()\<close> and \<^verbatim>\<open>Date.now()\<close> in it is taken to read the
  same \<open>now\<close>.
\<close>

definition startDate :: "'n js_runtime \<Rightarrow> int \<Rightarrow> int" where
  "startDate rt now =
     (let startDate = setHours rt now 8 0 0
      in if now > startDate
         then setHours rt (setDate rt now (DateFromTime (LocalTime rt now) + 1)) 8 0 0
         else startDate)"

definition timeLeft :: "'n js_runtime \<Rightarrow> int \<Rightarrow> int" where
  "timeLeft rt now = startDate rt now - now"

text \<open>
  The timers, taken as exact: the callback of \<^verbatim>\<open>setTimeout(f, delay)\<close> called at time
  \<open>t\<close> runs at \<open>t + delay\<close>, and the callback of \<^verbatim>\<open>setInterval(f, period)\<close> called at
  time \<open>t\<close> runs for the \<open>k\<close>-th time (counting from 0) at \<open>t + (k + 1) * period\<close>.
\<close>

definition setTimeout_run :: "int \<Rightarrow> int \<Rightarrow> int" where
  "setTimeout_run t delay = t + delay"

definition setInterval_run :: "int \<Rightarrow> int \<Rightarrow> nat \<Rightarrow> int" where
  "setInterval_run t period k = t + (int k + 1) * period"

text \<open>
  Lines 283-300: the time at which the forecast job is started for the \<open>k\<close>-th time.
  Run 0 is the callback of the timeout set at \<open>now\<close>.  That callback awaits the job and
  only then calls \<^verbatim>\<open>setInterval\<close>; \<open>jobTime\<close> is the time this takes, so the interval is
  set at the time of run 0 plus \<open>jobTime\<close>, and its callbacks are the runs after run 0.
  (If the job of run 0 throws, \<^verbatim>\<open>setInterval\<close> is never called and there is no later
  run; the function describes the runs when it completes.)
\<close>

fun forecastRun :: "'n js_runtime \<Rightarrow> int \<Rightarrow> int \<Rightarrow> nat \<Rightarrow> int" where
  "forecastRun rt now jobTime 0 = setTimeout_run now (timeLeft rt now)"
| "forecastRun rt now jobTime (Suc k) =
     setInterval_run (setTimeout_run now (timeLeft rt now) + jobTime) oneDayInMs k"

section \<open>Notions used in the statements\<close>

text \<open>The property \<open>k\<close> of \<open>v\<close> can be read and is neither \<^verbatim>\<open>undefined\<close> nor \<^verbatim>\<open>null\<close>.\<close>

definition present :: "'n js_value \<Rightarrow> string \<Rightarrow> bool" where
  "present v k = (case getp v k of Inl err \<Rightarrow> False | Inr x \<Rightarrow> x \<noteq> JUndefined \<and> x \<noteq> JNull)"

text \<open>\<^verbatim>\<open>v.a.b\<close>\<close>

definition read2 :: "'n js_value \<Rightarrow> string \<Rightarrow> string \<Rightarrow> error + 'n js_value" where
  "read2 v a b = bind_res (getp v a) (\<lambda>x. getp x b)"

text \<open>The Date of a record: \<^verbatim>\<open>new Date(e.observation_time.value)\<close>, invalid if the read throws.\<close>

definition observation_date :: "'n js_runtime \<Rightarrow> 'n js_value \<Rightarrow> int option" where
  "observation_date rt e =
     (case read2 e ''observation_time'' ''value'' of Inl err \<Rightarrow> None | Inr v \<Rightarrow> newDate rt v)"

text \<open>The time value of 08:00:00.000 local time on the local day of \<open>now\<close>.\<close>

definition today_at_8 :: "'n js_runtime \<Rightarrow> int \<Rightarrow> int" where
  "today_at_8 rt now = UTC rt (MakeDate (Day (LocalTime rt now)) (MakeTime 8 0 0 0))"

text \<open>The same on the local day after the local day of \<open>now\<close>.\<close>

definition tomorrow_at_8 :: "'n js_runtime \<Rightarrow> int \<Rightarrow> int" where
  "tomorrow_at_8 rt now = UTC rt (MakeDate (Day (LocalTime rt now) + 1) (MakeTime 8 0 0 0))"

text \<open>
  The local second that starts at the local time value \<open>loc\<close> is on the host's clock and
  no clock change falls into it: its local times and its instants correspond, in step.
\<close>

definition steady_second :: "'n js_runtime \<Rightarrow> int \<Rightarrow> bool" where
  "steady_second rt loc =
     (\<forall>m. 0 \<le> m \<and> m < 1000 \<longrightarrow>
        UTC rt (loc + m) = UTC rt loc + m \<and> LocalTime rt (UTC rt loc + m) = loc + m)"

text \<open>
  What the statement about the first run asks of the host's clock at \<open>now\<close>: the second
  08:00:00 of today and of tomorrow is steady, and the local time of \<open>now\<close> moved one day
  ahead is read back by the host on tomorrow's date with the same milliseconds (a clock
  change may shift its hour).  A zone with clock changes at night meets this on every
  day, the days of the changes included.
\<close>

definition regular_clock :: "'n js_runtime \<Rightarrow> int \<Rightarrow> bool" where
  "regular_clock rt now =
     (let lt = LocalTime rt now;
          lt' = LocalTime rt (UTC rt (lt + msPerDay))
      in steady_second rt (MakeDate (Day lt) (MakeTime 8 0 0 0)) \<and>
         steady_second rt (MakeDate (Day lt + 1) (MakeTime 8 0 0 0)) \<and>
         Day lt' = Day lt + 1 \<and> msFromTime lt' = msFromTime lt)"

text \<open>\<^verbatim>\<open>typeof v === "object" && v !== null\<close>\<close>

definition is_object :: "'n js_value \<Rightarrow> bool" where
  "is_object v = (case v of JArr xs \<Rightarrow> True | JObj kvs \<Rightarrow> True | _ \<Rightarrow> False)"

text \<open>
  The query string as the specification describes it: the parameters of the options in
  order, an array giving one parameter for each of its scalar elements, joined by
  \<^verbatim>\<open>&\<close>.
\<close>

definition spec_params :: "('n \<Rightarrow> string) \<Rightarrow> (string \<times> 'n js_value) list \<Rightarrow> string list" where
  "spec_params n2s options =
     concat (map (\<lambda>(key, v).
         case scalar_text n2s v of
           Some text \<Rightarrow> [key @ ''='' @ text]
         | None \<Rightarrow>
             (case v of
                JArr es \<Rightarrow> map (\<lambda>text. key @ ''='' @ text) (List.map_filter (scalar_text n2s) es)
              | _ \<Rightarrow> []))
       options)"

fun join_amp :: "string list \<Rightarrow> string" where
  "join_amp [] = []"
| "join_amp [p] = p"
| "join_amp (p # q # ps) = p @ ''&'' @ join_amp (q # ps)"

definition spec_queryBuilder :: "('n \<Rightarrow> string) \<Rightarrow> string \<Rightarrow> (string \<times> 'n js_value) list \<Rightarrow> string" where
  "spec_queryBuilder n2s request options = request @ ''?'' @ join_amp (spec_params n2s options)"

section \<open>A host and inputs for the examples\<close>

text \<open>
  A host whose numbers are the integers and whose zone is UTC.  It is meant for the
  values the examples use: the text of an integer (below \<open>10^21\<close> in size) is its
  decimal numeral, a string of decimal digits reads as its number and the empty string
  as 0, and a Date is made from a number (its time value) or from a string of the form
  \<^verbatim>\<open>YYYY-MM-DDTHH:mm:ss.sssZ\<close>, in which the API gives its times.  Whatever else a
  real host accepts (other numeric literals, other date formats, field values that are
  not a date of the calendar) is NaN or an invalid date here; the examples use none of
  it.
\<close>

definition show_int :: "int \<Rightarrow> string" where
  "show_int n = (if n < 0 then ''-'' @ show_nat (nat (- n)) else show_nat (nat n))"

definition digit_val :: "char \<Rightarrow> int option" where
  "digit_val c = map_of (zip ''0123456789'' [0, 1, 2, 3, 4, 5, 6, 7, 8, 9]) c"

fun digits_val :: "int \<Rightarrow> string \<Rightarrow> int option" where
  "digits_val acc [] = Some acc"
| "digits_val acc (c # cs) =
     (case digit_val c of None \<Rightarrow> None | Some d \<Rightarrow> digits_val (10 * acc + d) cs)"

definition days_from_civil :: "int \<Rightarrow> int \<Rightarrow> int \<Rightarrow> int" where
  "days_from_civil y m d =
     (let y' = (if m \<le> 2 then y - 1 else y);
          yoe = y' mod 400;
          doy = (153 * (if m > 2 then m - 3 else m + 9) + 2) div 5 + d - 1;
          doe = yoe * 365 + yoe div 4 - yoe div 100 + doy
      in (y' div 400) * 146097 + doe - 719468)"

definition iso_utc :: "string \<Rightarrow> int option" where
  "iso_utc s =
     (if length s = 24 \<and> s ! 4 = CHR ''-'' \<and> s ! 7 = CHR ''-'' \<and> s ! 10 = CHR ''T''
         \<and> s ! 13 = CHR '':'' \<and> s ! 16 = CHR '':'' \<and> s ! 19 = CHR ''.'' \<and> s ! 23 = CHR ''Z''
      then
        (case (digits_val 0 (take 4 s), digits_val 0 (take 2 (drop 5 s)),
               digits_val 0 (take 2 (drop 8 s)), digits_val 0 (take 2 (drop 11 s)),
               digits_val 0 (take 2 (drop 14 s)), digits_val 0 (take 2 (drop 17 s)),
               digits_val 0 (take 3 (drop 20 s))) of
           (Some y, Some mo, Some d, Some h, Some mi, Some se, Some ms) \<Rightarrow>
             if 1 \<le> mo \<and> mo \<le> 12 \<and> 1 \<le> d \<and> day_of_month (days_from_civil y mo d) = d
                \<and> h < 24 \<and> mi < 60 \<and> se < 60
             then Some (MakeDate (days_from_civil y mo d) (MakeTime h mi se ms))
             else None
         | _ \<Rightarrow> None)
      else None)"

definition utc_host :: "int js_runtime" where
  "utc_host =
     \<lparr>NumberToString = show_int,
      StringToNumber = digits_val 0,
      newDate = (\<lambda>v. case v of JNum n \<Rightarrow> Some n | JStr s \<Rightarrow> iso_utc s | _ \<Rightarrow> None),
      LocalTZA = (\<lambda>t isUTC. 0)\<rparr>"

text \<open>
  The same host in Pacific time around the clock change of 2020-03-08, when the local
  time went from 02:00 (UTC-8) to 03:00 (UTC-7) at 10:00 UTC; a local time the change
  skips is read with the offset before it.  No other clock change is part of it.
\<close>

definition pacific_host :: "int js_runtime" where
  "pacific_host =
     utc_host\<lparr>LocalTZA := (\<lambda>t isUTC.
        if isUTC then (if t < 1583661600000 then - 28800000 else - 25200000)
        else (if t < 1583636400000 then - 28800000 else - 25200000))\<rparr>"

definition measurement :: "int js_value \<Rightarrow> string \<Rightarrow> int js_value" where
  "measurement v u = JObj [(''value'', v), (''units'', JStr u)]"

text \<open>A realtime response with the six indicators, given in an order of its own.\<close>

definition air_response :: "int \<Rightarrow> int \<Rightarrow> int \<Rightarrow> int \<Rightarrow> int \<Rightarrow> int \<Rightarrow> int js_value" where
  "air_response co no2 o3 pm10 pm25 so2 =
     JObj [(''lat'', JNum 37), (''lon'', JNum (- 122)),
           (''co'', measurement (JNum co) ''ppb''), (''no2'', measurement (JNum no2) ''ppb''),
           (''o3'', measurement (JNum o3) ''ppb''), (''pm10'', measurement (JNum pm10) ''ug/m3''),
           (''pm25'', measurement (JNum pm25) ''ug/m3''), (''so2'', measurement (JNum so2) ''ppb'')]"

text \<open>An hourly record of the forecast response.\<close>

definition hourly :: "string \<Rightarrow> string \<Rightarrow> int \<Rightarrow> int \<Rightarrow> int \<Rightarrow> int js_value" where
  "hourly time code t h w =
     JObj [(''temp'', measurement (JNum t) ''C''), (''wind_speed'', measurement (JNum w) ''m/s''),
           (''humidity'', measurement (JNum h) ''%''), (''weather_code'', JObj [(''value'', JStr code)]),
           (''observation_time'', JObj [(''value'', JStr time)])]"

section \<open>Basic facts\<close>

lemma error_eq: "(e :: error) = e'"
  by (cases e, cases e') simp

lemma result_cases: "(r :: error + 'a) = Inl TypeError \<or> (\<exists>x. r = Inr x)"
  by (cases r) (auto intro: error.exhaust)


lemma forEach_push_Inr:
  "forEach_push body i xs acc = Inr res \<longleftrightarrow>
     (\<exists>out. res = acc @ out \<and> length out = length xs \<and>
        (\<forall>j<length xs. body (xs ! j) (i + j) = Inr (out ! j)))"
proof (induction xs arbitrary: i acc)
  case Nil
  then show ?case by auto
next
  case (Cons e es)
  show ?case
  proof (cases "body e i")
    case (Inl err)
    then show ?thesis by (auto dest: spec[of _ 0])
  next
    case (Inr x)
    show ?thesis
    proof
      assume "forEach_push body i (e # es) acc = Inr res"
      with Inr Cons.IH[of "Suc i" "push acc x"]
      obtain out where o: "res = push acc x @ out" "length out = length es"
        "\<forall>j<length es. body (es ! j) (Suc i + j) = Inr (out ! j)"
        by auto
      have "\<forall>j<length (e # es). body ((e # es) ! j) (i + j) = Inr ((x # out) ! j)"
        using o(3) Inr by (auto simp: nth_Cons split: nat.splits)
      with o(1,2) show "\<exists>out. res = acc @ out \<and> length out = length (e # es) \<and>
        (\<forall>j<length (e # es). body ((e # es) ! j) (i + j) = Inr (out ! j))"
        by (intro exI[of _ "x # out"]) (simp add: push_def)
    next
      assume "\<exists>out. res = acc @ out \<and> length out = length (e # es) \<and>
        (\<forall>j<length (e # es). body ((e # es) ! j) (i + j) = Inr (out ! j))"
      then obtain out where o: "res = acc @ out" "length out = length (e # es)"
        "\<forall>j<length (e # es). body ((e # es) ! j) (i + j) = Inr (out ! j)"
        by blast
      from o(2) obtain y ys where out: "out = y # ys" by (cases out) auto
      from o(3) Inr out have y: "y = x" by (auto dest: spec[of _ 0])
      have "\<forall>j<length es. body (es ! j) (Suc i + j) = Inr (ys ! j)"
      proof (intro allI impI)
        fix j assume "j < length es"
        with o(3)[rule_format, of "Suc j"] out show "body (es ! j) (Suc i + j) = Inr (ys ! j)"
          by simp
      qed
      with o(1,2) out y Cons.IH[of "Suc i" "push acc x" ] Inr
      show "forEach_push body i (e # es) acc = Inr res"
        by (auto simp: push_def)
    qed
  qed
qed

lemma getp_defined: "x \<noteq> JUndefined \<Longrightarrow> x \<noteq> JNull \<Longrightarrow> \<exists>y. getp x b = Inr y"
  by (cases x) auto

lemma present_getp: "present v k \<longleftrightarrow> (\<exists>x. getp v k = Inr x \<and> x \<noteq> JUndefined \<and> x \<noteq> JNull)"
  by (auto simp: present_def split: sum.splits)

lemma getp_throws: "getp x b = Inl err \<longleftrightarrow> x = JUndefined \<or> x = JNull"
  by (cases x) (auto intro: error_eq)

lemma foldl_push_map: "foldl (\<lambda>acc e. push acc (f e)) acc xs = acc @ map f xs"
  by (induction xs arbitrary: acc) (simp_all add: push_def)

lemma show_nat_digit: "n < 10 \<Longrightarrow> show_nat n = [digit_char n]"
  by (simp add: show_nat.simps)

lemma show_nat_step: "\<not> n < 10 \<Longrightarrow> show_nat n = show_nat (n div 10) @ [digit_char (n mod 10)]"
  by (subst show_nat.simps) simp

lemma show_nat_nonempty: "show_nat n \<noteq> []"
  by (subst show_nat.simps) simp

lemmas eval_air =
  formatAirQualityData_def AIR_QUALITY_INDICATOR_def airQualityBox_def bind_res_def push_def
  show_nat_digit digit_char_def air_response_def measurement_def

section \<open>formatAirQualityData\<close>

lemma airQualityBox_Inr:
  "airQualityBox d ind i = Inr x \<longleftrightarrow>
     present d ind \<and>
     (\<exists>v. read2 d ind ''value'' = Inr v \<and>
        x = \<lparr>indicator = ind, current_value = v,
             air_image = ''./legends/'' @ ind @ ''-legend.png'', cid = ''aid'' @ show_nat i\<rparr>)"
proof (cases "getp d ind")
  case (Inl err)
  then show ?thesis by (simp add: airQualityBox_def present_def bind_res_def)
next
  case (Inr r)
  show ?thesis
  proof (cases "getp r ''value''")
    case (Inl err)
    with Inr show ?thesis
      by (auto simp: airQualityBox_def present_def bind_res_def read2_def getp_throws)
  next
    case r2: (Inr v)
    with Inr getp_throws[of r "''value''"] show ?thesis
      by (auto simp: airQualityBox_def present_def bind_res_def read2_def)
  qed
qed

lemma present_airQualityBox:
  assumes "present d ind"
  shows "\<exists>x. airQualityBox d ind i = Inr x"
proof -
  from assms obtain r where r: "getp d ind = Inr r" "r \<noteq> JUndefined" "r \<noteq> JNull"
    by (auto simp: present_getp)
  from getp_defined[OF r(2,3)] obtain v where "getp r ''value'' = Inr v" by blast
  with r(1) show ?thesis by (simp add: airQualityBox_def bind_res_def)
qed

lemma formatAirQualityData_Inr:
  "formatAirQualityData d = Inr out \<longleftrightarrow>
     length out = length AIR_QUALITY_INDICATOR \<and>
     (\<forall>j<length AIR_QUALITY_INDICATOR. airQualityBox d (AIR_QUALITY_INDICATOR ! j) j = Inr (out ! j))"
  by (simp add: formatAirQualityData_def forEach_push_Inr)

lemma length_indicators: "length AIR_QUALITY_INDICATOR = 6"
  by (simp add: AIR_QUALITY_INDICATOR_def)

lemma formatAirQualityData_succeeds:
  "(\<exists>out. formatAirQualityData d = Inr out) \<longleftrightarrow> (\<forall>ind\<in>set AIR_QUALITY_INDICATOR. present d ind)"
proof
  assume "\<exists>out. formatAirQualityData d = Inr out"
  then obtain out where "formatAirQualityData d = Inr out" ..
  then have "\<forall>j<length AIR_QUALITY_INDICATOR. present d (AIR_QUALITY_INDICATOR ! j)"
    by (auto simp: formatAirQualityData_Inr airQualityBox_Inr)
  then show "\<forall>ind\<in>set AIR_QUALITY_INDICATOR. present d ind"
    by (auto simp: in_set_conv_nth)
next
  assume a: "\<forall>ind\<in>set AIR_QUALITY_INDICATOR. present d ind"
  have "\<forall>j<length AIR_QUALITY_INDICATOR. \<exists>x. airQualityBox d (AIR_QUALITY_INDICATOR ! j) j = Inr x"
    using a by (auto intro: present_airQualityBox)
  then obtain f where f: "\<forall>j<length AIR_QUALITY_INDICATOR. airQualityBox d (AIR_QUALITY_INDICATOR ! j) j = Inr (f j)"
    by metis
  have "formatAirQualityData d = Inr (map f [0..<length AIR_QUALITY_INDICATOR])"
    using f by (simp add: formatAirQualityData_Inr)
  then show "\<exists>out. formatAirQualityData d = Inr out" ..
qed

lemma formatAirQualityData_key_order:
  assumes "map_of kvs = map_of kvs'"
  shows "formatAirQualityData (JObj kvs) = formatAirQualityData (JObj kvs')"
proof -
  have "airQualityBox (JObj kvs) = airQualityBox (JObj kvs')"
    using assms by (intro ext) (simp add: airQualityBox_def)
  then show ?thesis by (simp add: formatAirQualityData_def)
qed

text \<open>
  Claim C4.  For an input in which each of the six indicators can be read and is neither
  undefined nor null, formatAirQualityData returns a list of six entries, as many as
  the indicator set has, in the order pm10, pm25, o3, no2, co, so2 of the indicator set:
  entry \<open>i\<close> has the \<open>i\<close>-th indicator, as current_value what
  \<^verbatim>\<open>airQualityData[indicator].value\<close> reads, the image path
  \<^verbatim>\<open>./legends/<indicator>-legend.png\<close> and the correlation id \<^verbatim>\<open>aid<i>\<close>.  The
  order of the keys of the input object does not matter: an object with the same
  properties in any other order gives the same list.
\<close>

theorem formatAirQualityData_indicator_order:
  assumes "\<forall>ind\<in>set AIR_QUALITY_INDICATOR. present airQualityData ind"
  shows "\<exists>out. formatAirQualityData airQualityData = Inr out \<and>
           length out = length AIR_QUALITY_INDICATOR \<and> length out = 6 \<and>
           map indicator out = [''pm10'', ''pm25'', ''o3'', ''no2'', ''co'', ''so2''] \<and>
           (\<forall>i<6. indicator (out ! i) = AIR_QUALITY_INDICATOR ! i \<and>
                   read2 airQualityData (AIR_QUALITY_INDICATOR ! i) ''value''
                     = Inr (current_value (out ! i)) \<and>
                   air_image (out ! i) = ''./legends/'' @ AIR_QUALITY_INDICATOR ! i @ ''-legend.png'' \<and>
                   air_entry.cid (out ! i) = ''aid'' @ show_nat i) \<and>
           (\<forall>kvs kvs'. airQualityData = JObj kvs \<and> map_of kvs' = map_of kvs
                \<longrightarrow> formatAirQualityData (JObj kvs') = Inr out)"
proof -
  from assms obtain out where out: "formatAirQualityData airQualityData = Inr out"
    using formatAirQualityData_succeeds by blast
  then have len: "length out = 6"
    and box: "\<And>j. j < 6 \<Longrightarrow> airQualityBox airQualityData (AIR_QUALITY_INDICATOR ! j) j = Inr (out ! j)"
    by (simp_all add: formatAirQualityData_Inr length_indicators)
  have each: "indicator (out ! i) = AIR_QUALITY_INDICATOR ! i \<and>
      read2 airQualityData (AIR_QUALITY_INDICATOR ! i) ''value'' = Inr (current_value (out ! i)) \<and>
      air_image (out ! i) = ''./legends/'' @ AIR_QUALITY_INDICATOR ! i @ ''-legend.png'' \<and>
      air_entry.cid (out ! i) = ''aid'' @ show_nat i" if "i < 6" for i
    using box[OF that] by (auto simp: airQualityBox_Inr)
  have "map indicator out = AIR_QUALITY_INDICATOR"
    using len each by (intro nth_equalityI) (simp_all add: length_indicators)
  then have inds: "map indicator out = [''pm10'', ''pm25'', ''o3'', ''no2'', ''co'', ''so2'']"
    by (simp add: AIR_QUALITY_INDICATOR_def)
  have order: "formatAirQualityData (JObj kvs') = Inr out"
    if "airQualityData = JObj kvs \<and> map_of kvs' = map_of kvs" for kvs kvs'
    using that out formatAirQualityData_key_order[of kvs' kvs] by simp
  from out len each inds order show ?thesis
    by (simp add: length_indicators)
qed

theorem formatAirQualityData_indicator_order_witness:
  "list_all (present (air_response 8000 100 10 20 30 40)) AIR_QUALITY_INDICATOR \<and>
   (\<exists>out. formatAirQualityData (air_response 8000 100 10 20 30 40) = Inr out \<and>
      length out = 6 \<and>
      map indicator out = [''pm10'', ''pm25'', ''o3'', ''no2'', ''co'', ''so2''] \<and>
      map current_value out = [JNum 20, JNum 30, JNum 10, JNum 100, JNum 8000, JNum 40] \<and>
      map air_entry.cid out = [''aid0'', ''aid1'', ''aid2'', ''aid3'', ''aid4'', ''aid5''])"
proof -
  have p: "\<forall>ind\<in>set AIR_QUALITY_INDICATOR. present (air_response 8000 100 10 20 30 40) ind"
    by (simp add: AIR_QUALITY_INDICATOR_def present_def air_response_def measurement_def)
  from formatAirQualityData_indicator_order[OF p]
  obtain out where out: "formatAirQualityData (air_response 8000 100 10 20 30 40) = Inr out"
    and len: "length out = 6"
    and inds: "map indicator out = [''pm10'', ''pm25'', ''o3'', ''no2'', ''co'', ''so2'']"
    by (elim exE conjE)
  have "formatAirQualityData (air_response 8000 100 10 20 30 40) =
      Inr [\<lparr>indicator = ''pm10'', current_value = JNum 20, air_image = ''./legends/pm10-legend.png'', cid = ''aid0''\<rparr>,
           \<lparr>indicator = ''pm25'', current_value = JNum 30, air_image = ''./legends/pm25-legend.png'', cid = ''aid1''\<rparr>,
           \<lparr>indicator = ''o3'', current_value = JNum 10, air_image = ''./legends/o3-legend.png'', cid = ''aid2''\<rparr>,
           \<lparr>indicator = ''no2'', current_value = JNum 100, air_image = ''./legends/no2-legend.png'', cid = ''aid3''\<rparr>,
           \<lparr>indicator = ''co'', current_value = JNum 8000, air_image = ''./legends/co-legend.png'', cid = ''aid4''\<rparr>,
           \<lparr>indicator = ''so2'', current_value = JNum 40, air_image = ''./legends/so2-legend.png'', cid = ''aid5''\<rparr>]"
    by (simp add: eval_air)
  with out len inds p show ?thesis
    by (auto simp: list_all_iff)
qed

text \<open>
  Claim C9, as amended.  formatAirQualityData succeeds exactly when each of the six
  indicators can be read from the input and is neither undefined (absent) nor null;
  if one of them is absent or null it throws a TypeError, and it neither skips the
  indicator nor puts a placeholder in its place.  What the indicator maps to need not
  be an object: for a number, a string or a boolean the read of \<^verbatim>\<open>.value\<close> does not
  throw but gives undefined, which becomes the entry's current_value.
\<close>

theorem formatAirQualityData_partial:
  "((\<exists>out. formatAirQualityData d = Inr out) \<longleftrightarrow> (\<forall>ind\<in>set AIR_QUALITY_INDICATOR. present d ind)) \<and>
   ((\<exists>ind\<in>set AIR_QUALITY_INDICATOR. \<not> present d ind) \<longrightarrow> formatAirQualityData d = Inl TypeError) \<and>
   (\<forall>out. formatAirQualityData d = Inr out \<longrightarrow> map indicator out = AIR_QUALITY_INDICATOR)"
proof (intro conjI)
  show "(\<exists>out. formatAirQualityData d = Inr out) \<longleftrightarrow> (\<forall>ind\<in>set AIR_QUALITY_INDICATOR. present d ind)"
    by (rule formatAirQualityData_succeeds)
  show "(\<exists>ind\<in>set AIR_QUALITY_INDICATOR. \<not> present d ind) \<longrightarrow> formatAirQualityData d = Inl TypeError"
    using formatAirQualityData_succeeds[of d] result_cases[of "formatAirQualityData d"] by blast
  show "\<forall>out. formatAirQualityData d = Inr out \<longrightarrow> map indicator out = AIR_QUALITY_INDICATOR"
  proof (intro allI impI)
    fix out assume "formatAirQualityData d = Inr out"
    then show "map indicator out = AIR_QUALITY_INDICATOR"
      by (intro nth_equalityI) (auto simp: formatAirQualityData_Inr airQualityBox_Inr)
  qed
qed

theorem formatAirQualityData_partial_witness:
  "\<not> present (JObj [(''pm10'', measurement (JNum 20) ''ug/m3''), (''pm25'', measurement (JNum 30) ''ug/m3''),
                   (''o3'', JNull), (''no2'', measurement (JNum 100) ''ppb''),
                   (''co'', measurement (JNum 8000) ''ppb'')]) ''o3'' \<and>
   \<not> present (JObj [(''pm10'', measurement (JNum 20) ''ug/m3''), (''pm25'', measurement (JNum 30) ''ug/m3''),
                   (''o3'', JNull), (''no2'', measurement (JNum 100) ''ppb''),
                   (''co'', measurement (JNum 8000) ''ppb'')]) ''so2'' \<and>
   formatAirQualityData
     (JObj [(''pm10'', measurement (JNum 20) ''ug/m3''), (''pm25'', measurement (JNum 30) ''ug/m3''),
            (''o3'', JNull), (''no2'', measurement (JNum 100) ''ppb''),
            (''co'', measurement (JNum 8000) ''ppb'')]) = Inl TypeError \<and>
   list_all (present (air_response 8000 100 10 20 30 40)) AIR_QUALITY_INDICATOR \<and>
   (\<exists>out. formatAirQualityData (air_response 8000 100 10 20 30 40) = Inr out)"
  using formatAirQualityData_partial
          [of "JObj [(''pm10'', measurement (JNum 20) ''ug/m3''), (''pm25'', measurement (JNum 30) ''ug/m3''),
                     (''o3'', JNull), (''no2'', measurement (JNum 100) ''ppb''),
                     (''co'', measurement (JNum 8000) ''ppb'')]"]
        formatAirQualityData_partial [of "air_response 8000 100 10 20 30 40"]
  by (simp add: AIR_QUALITY_INDICATOR_def present_def air_response_def measurement_def)

theorem formatAirQualityData_primitive_counterexample:
  "getp (JObj [(''pm10'', measurement (JNum 20) ''ug/m3''), (''pm25'', measurement (JNum 30) ''ug/m3''),
               (''o3'', measurement (JNum 10) ''ppb''), (''no2'', measurement (JNum 100) ''ppb''),
               (''co'', JNum 8000), (''so2'', measurement (JNum 40) ''ppb'')]) ''co'' = Inr (JNum 8000) \<and>
   \<not> is_object (JNum (8000 :: int)) \<and>
   formatAirQualityData
     (JObj [(''pm10'', measurement (JNum 20) ''ug/m3''), (''pm25'', measurement (JNum 30) ''ug/m3''),
            (''o3'', measurement (JNum 10) ''ppb''), (''no2'', measurement (JNum 100) ''ppb''),
            (''co'', JNum 8000), (''so2'', measurement (JNum 40) ''ppb'')])
   = Inr [\<lparr>indicator = ''pm10'', current_value = JNum 20, air_image = ''./legends/pm10-legend.png'', cid = ''aid0''\<rparr>,
          \<lparr>indicator = ''pm25'', current_value = JNum 30, air_image = ''./legends/pm25-legend.png'', cid = ''aid1''\<rparr>,
          \<lparr>indicator = ''o3'', current_value = JNum 10, air_image = ''./legends/o3-legend.png'', cid = ''aid2''\<rparr>,
          \<lparr>indicator = ''no2'', current_value = JNum 100, air_image = ''./legends/no2-legend.png'', cid = ''aid3''\<rparr>,
          \<lparr>indicator = ''co'', current_value = JUndefined, air_image = ''./legends/co-legend.png'', cid = ''aid4''\<rparr>,
          \<lparr>indicator = ''so2'', current_value = JNum 40, air_image = ''./legends/so2-legend.png'', cid = ''aid5''\<rparr>]"
  by (simp add: eval_air is_object_def)

section \<open>Evaluating the examples\<close>

lemma LocalTZA_utc_host: "LocalTZA utc_host t isUTC = 0"
  by (simp add: utc_host_def)

lemma observation_date_hourly: "observation_date utc_host (hourly s c t h w) = iso_utc s"
  by (simp add: observation_date_def read2_def bind_res_def hourly_def utc_host_def)

lemma present_hourly:
  "present (hourly s c t h w) ''observation_time''" "present (hourly s c t h w) ''weather_code''"
  "present (hourly s c t h w) ''temp''" "present (hourly s c t h w) ''humidity''"
  "present (hourly s c t h w) ''wind_speed''"
  by (simp_all add: present_def hourly_def measurement_def)

lemma present_air_response:
  "\<forall>ind\<in>set AIR_QUALITY_INDICATOR. present (air_response co no2 o3 pm10 pm25 so2) ind"
  by (simp add: AIR_QUALITY_INDICATOR_def present_def air_response_def measurement_def)

lemma formatAirQualityData_air_response:
  "formatAirQualityData (air_response co no2 o3 pm10 pm25 so2) =
     Inr [\<lparr>indicator = ''pm10'', current_value = JNum pm10, air_image = ''./legends/pm10-legend.png'', cid = ''aid0''\<rparr>,
          \<lparr>indicator = ''pm25'', current_value = JNum pm25, air_image = ''./legends/pm25-legend.png'', cid = ''aid1''\<rparr>,
          \<lparr>indicator = ''o3'', current_value = JNum o3, air_image = ''./legends/o3-legend.png'', cid = ''aid2''\<rparr>,
          \<lparr>indicator = ''no2'', current_value = JNum no2, air_image = ''./legends/no2-legend.png'', cid = ''aid3''\<rparr>,
          \<lparr>indicator = ''co'', current_value = JNum co, air_image = ''./legends/co-legend.png'', cid = ''aid4''\<rparr>,
          \<lparr>indicator = ''so2'', current_value = JNum so2, air_image = ''./legends/so2-legend.png'', cid = ''aid5''\<rparr>]"
  by (simp add: eval_air)

section \<open>formatWeatherData\<close>

lemma present_read2:
  assumes "present e a"
  shows "\<exists>x y. getp e a = Inr x \<and> getp x b = Inr y \<and> read2 e a b = Inr y"
proof -
  from assms obtain x where x: "getp e a = Inr x" "x \<noteq> JUndefined" "x \<noteq> JNull"
    by (auto simp: present_getp)
  from getp_defined[OF x(2,3)] obtain y where "getp x b = Inr y" by blast
  with x(1) show ?thesis by (simp add: read2_def bind_res_def)
qed

lemma formatWeatherEntry_present:
  assumes "\<forall>k\<in>set [''observation_time'', ''weather_code'', ''temp'', ''humidity'', ''wind_speed'']. present e k"
  shows "\<exists>wcv tv tu hv hu wv wu.
           read2 e ''weather_code'' ''value'' = Inr wcv \<and>
           read2 e ''temp'' ''value'' = Inr tv \<and> read2 e ''temp'' ''units'' = Inr tu \<and>
           read2 e ''humidity'' ''value'' = Inr hv \<and> read2 e ''humidity'' ''units'' = Inr hu \<and>
           read2 e ''wind_speed'' ''value'' = Inr wv \<and> read2 e ''wind_speed'' ''units'' = Inr wu \<and>
           formatWeatherEntry rt e i =
             Inr \<lparr>hour = getHours rt (observation_date rt e),
                  weather_image = ''./summary-icons/'' @ ToString (NumberToString rt) wcv @ ''.png'',
                  cid = ''wid'' @ show_nat i,
                  temp = tv, temp_unit = tu, humidity = hv, humidity_unit = hu,
                  wind_speed = wv, wind_speed_unit = wu\<rparr>"
proof -
  from assms have p: "present e ''observation_time''" "present e ''weather_code''"
    "present e ''temp''" "present e ''humidity''" "present e ''wind_speed''"
    by simp_all
  from present_read2[OF p(1), of "''value''"] obtain ot otv
    where ot: "getp e ''observation_time'' = Inr ot" "getp ot ''value'' = Inr otv" by blast
  from present_read2[OF p(2), of "''value''"] obtain wc wcv
    where wc: "getp e ''weather_code'' = Inr wc" "getp wc ''value'' = Inr wcv" by blast
  from present_read2[OF p(3), of "''value''"] obtain t tv
    where t: "getp e ''temp'' = Inr t" "getp t ''value'' = Inr tv" by blast
  from present_read2[OF p(3), of "''units''"] t(1) obtain tu
    where tu: "getp t ''units'' = Inr tu" by auto
  from present_read2[OF p(4), of "''value''"] obtain h hv
    where h: "getp e ''humidity'' = Inr h" "getp h ''value'' = Inr hv" by blast
  from present_read2[OF p(4), of "''units''"] h(1) obtain hu
    where hu: "getp h ''units'' = Inr hu" by auto
  from present_read2[OF p(5), of "''value''"] obtain w wv
    where w: "getp e ''wind_speed'' = Inr w" "getp w ''value'' = Inr wv" by blast
  from present_read2[OF p(5), of "''units''"] w(1) obtain wu
    where wu: "getp w ''units'' = Inr wu" by auto
  from ot wc t tu h hu w wu show ?thesis
    by (simp add: formatWeatherEntry_def read2_def bind_res_def observation_date_def)
qed

text \<open>
  Claim C7.  For a list of hourly records each of which has the fields
  observation_time, weather_code, temp, humidity and wind_speed (readable, and neither
  undefined nor null), formatWeatherData returns a list of the same length in the same
  order; entry \<open>i\<close> has the correlation id \<^verbatim>\<open>wid<i>\<close>, as hour the hour of the day of
  the \<open>i\<close>-th record's observation time (in local time), the image path built from the
  value of its weather code, and the values and units of its temp, humidity and
  wind_speed.
\<close>

theorem formatWeatherData_entries:
  assumes "\<forall>e\<in>set data. \<forall>k\<in>set [''observation_time'', ''weather_code'', ''temp'', ''humidity'', ''wind_speed'']. present e k"
  shows "\<exists>out. formatWeatherData rt data = Inr out \<and> length out = length data \<and>
           (\<forall>i<length data.
              weather_entry.cid (out ! i) = ''wid'' @ show_nat i \<and>
              hour (out ! i) = getHours rt (observation_date rt (data ! i)) \<and>
              (\<exists>code. read2 (data ! i) ''weather_code'' ''value'' = Inr code \<and>
                 weather_image (out ! i) = ''./summary-icons/'' @ ToString (NumberToString rt) code @ ''.png'') \<and>
              read2 (data ! i) ''temp'' ''value'' = Inr (temp (out ! i)) \<and>
              read2 (data ! i) ''temp'' ''units'' = Inr (temp_unit (out ! i)) \<and>
              read2 (data ! i) ''humidity'' ''value'' = Inr (humidity (out ! i)) \<and>
              read2 (data ! i) ''humidity'' ''units'' = Inr (humidity_unit (out ! i)) \<and>
              read2 (data ! i) ''wind_speed'' ''value'' = Inr (wind_speed (out ! i)) \<and>
              read2 (data ! i) ''wind_speed'' ''units'' = Inr (wind_speed_unit (out ! i)))"
proof -
  have "\<forall>j<length data. \<exists>x. formatWeatherEntry rt (data ! j) j = Inr x"
  proof (intro allI impI)
    fix j assume "j < length data"
    with assms have "\<forall>k\<in>set [''observation_time'', ''weather_code'', ''temp'', ''humidity'', ''wind_speed'']. present (data ! j) k"
      by simp
    from formatWeatherEntry_present[OF this, of rt j]
    show "\<exists>x. formatWeatherEntry rt (data ! j) j = Inr x" by blast
  qed
  then obtain f where f: "\<forall>j<length data. formatWeatherEntry rt (data ! j) j = Inr (f j)"
    by metis
  define out where "out = map f [0..<length data]"
  have out: "formatWeatherData rt data = Inr out" and len: "length out = length data"
    using f by (simp_all add: formatWeatherData_def forEach_push_Inr out_def)
  have "weather_entry.cid (out ! i) = ''wid'' @ show_nat i \<and>
        hour (out ! i) = getHours rt (observation_date rt (data ! i)) \<and>
        (\<exists>code. read2 (data ! i) ''weather_code'' ''value'' = Inr code \<and>
           weather_image (out ! i) = ''./summary-icons/'' @ ToString (NumberToString rt) code @ ''.png'') \<and>
        read2 (data ! i) ''temp'' ''value'' = Inr (temp (out ! i)) \<and>
        read2 (data ! i) ''temp'' ''units'' = Inr (temp_unit (out ! i)) \<and>
        read2 (data ! i) ''humidity'' ''value'' = Inr (humidity (out ! i)) \<and>
        read2 (data ! i) ''humidity'' ''units'' = Inr (humidity_unit (out ! i)) \<and>
        read2 (data ! i) ''wind_speed'' ''value'' = Inr (wind_speed (out ! i)) \<and>
        read2 (data ! i) ''wind_speed'' ''units'' = Inr (wind_speed_unit (out ! i))"
    if i: "i < length data" for i
  proof -
    from i assms have "\<forall>k\<in>set [''observation_time'', ''weather_code'', ''temp'', ''humidity'', ''wind_speed'']. present (data ! i) k"
      by simp
    from formatWeatherEntry_present[OF this, of rt i] f i
    show ?thesis by (auto simp: out_def)
  qed
  with out len show ?thesis by blast
qed

theorem formatWeatherData_entries_witness:
  "list_all (\<lambda>e. list_all (present e) [''observation_time'', ''weather_code'', ''temp'', ''humidity'', ''wind_speed''])
     [hourly ''2020-05-11T08:00:00.000Z'' ''clear'' 21 40 3,
      hourly ''2020-05-11T10:00:00.000Z'' ''rain'' 19 65 5] \<and>
   (\<exists>out. formatWeatherData utc_host
       [hourly ''2020-05-11T08:00:00.000Z'' ''clear'' 21 40 3,
        hourly ''2020-05-11T10:00:00.000Z'' ''rain'' 19 65 5] = Inr out \<and>
      length out = 2 \<and>
      map weather_entry.cid out = [''wid0'', ''wid1''] \<and>
      map hour out = [Some 8, Some 10] \<and>
      map weather_image out = [''./summary-icons/clear.png'', ''./summary-icons/rain.png''] \<and>
      map temp out = [JNum 21, JNum 19] \<and> map temp_unit out = [JStr ''C'', JStr ''C''] \<and>
      map humidity out = [JNum 40, JNum 65] \<and> map humidity_unit out = [JStr ''%'', JStr ''%''] \<and>
      map wind_speed out = [JNum 3, JNum 5] \<and> map wind_speed_unit out = [JStr ''m/s'', JStr ''m/s''])"
proof -
  have p: "\<forall>e\<in>set [hourly ''2020-05-11T08:00:00.000Z'' ''clear'' 21 40 3,
        hourly ''2020-05-11T10:00:00.000Z'' ''rain'' 19 65 5].
        \<forall>k\<in>set [''observation_time'', ''weather_code'', ''temp'', ''humidity'', ''wind_speed'']. present e k"
    by (simp add: present_hourly)
  from formatWeatherData_entries[OF p, of utc_host] obtain out where out: "formatWeatherData utc_host
       [hourly ''2020-05-11T08:00:00.000Z'' ''clear'' 21 40 3,
        hourly ''2020-05-11T10:00:00.000Z'' ''rain'' 19 65 5] = Inr out"
    by (elim exE conjE)
  have "formatWeatherData utc_host
       [hourly ''2020-05-11T08:00:00.000Z'' ''clear'' 21 40 3,
        hourly ''2020-05-11T10:00:00.000Z'' ''rain'' 19 65 5] =
     Inr [\<lparr>hour = Some 8, weather_image = ''./summary-icons/clear.png'', cid = ''wid0'',
           temp = JNum 21, temp_unit = JStr ''C'', humidity = JNum 40, humidity_unit = JStr ''%'',
           wind_speed = JNum 3, wind_speed_unit = JStr ''m/s''\<rparr>,
          \<lparr>hour = Some 10, weather_image = ''./summary-icons/rain.png'', cid = ''wid1'',
           temp = JNum 19, temp_unit = JStr ''C'', humidity = JNum 65, humidity_unit = JStr ''%'',
           wind_speed = JNum 5, wind_speed_unit = JStr ''m/s''\<rparr>]"
    by code_simp
  with out p show ?thesis by (auto simp: list_all_iff)
qed

section \<open>weatherForecastJob\<close>

lemma filter_res_Inr:
  "\<forall>x\<in>set xs. p x = Inr (q x) \<Longrightarrow> filter_res p xs = Inr (filter q xs)"
  by (induction xs) simp_all

lemma desired_present:
  assumes "present e ''observation_time''"
  shows "desired rt now e =
     Inr (\<exists>t. observation_date rt e = Some t \<and>
              HourFromTime (LocalTime rt t) \<in> {8, 10, 12, 14, 16, 18, 20, 22} \<and>
              WeekDay (LocalTime rt t) = WeekDay (LocalTime rt now))"
proof -
  from assms obtain ot where ot: "getp e ''observation_time'' = Inr ot" "ot \<noteq> JUndefined" "ot \<noteq> JNull"
    by (auto simp: present_getp)
  from getp_defined[OF ot(2,3)] obtain v where v: "getp ot ''value'' = Inr v" by blast
  show ?thesis
  proof (cases "newDate rt v")
    case None
    with ot v show ?thesis
      by (simp add: desired_def bind_res_def observation_date_def read2_def getHours_def includes_num_def)
  next
    case (Some t)
    with ot v show ?thesis
      by (auto simp: desired_def bind_res_def observation_date_def read2_def getHours_def getDay_def
            includes_num_def eq_num_def desiredHours_def)
  qed
qed

text \<open>
  What the filter does: for records that have an observation_time it keeps, in order,
  those whose observation time has an hour of the day among 8, 10, 12, 14, 16, 18, 20,
  22 and the day of the week (\<^verbatim>\<open>getDay\<close>) of the current time.
\<close>

lemma desiredWeatherData_filter:
  assumes "\<forall>e\<in>set records. present e ''observation_time''"
  shows "desiredWeatherData rt now (JArr records) =
     Inr (filter (\<lambda>e. \<exists>t. observation_date rt e = Some t \<and>
                     HourFromTime (LocalTime rt t) \<in> {8, 10, 12, 14, 16, 18, 20, 22} \<and>
                     WeekDay (LocalTime rt t) = WeekDay (LocalTime rt now)) records)"
  using assms by (simp add: desiredWeatherData_def filter_res_Inr desired_present)

text \<open>
  Claim C1.  The claim asks that a record is retained exactly when its hour is among
  the desired hours and its day of the month is the current day of the month, and the
  comment of line 186 that the data kept are those of today.  The code compares
  \<^verbatim>\<open>getDay()\<close>, the day of the week, so it also keeps a record of the same weekday of
  another week: with the current time 2020-05-11T07:00Z (a Monday, day 11) the record
  of 2020-05-18T08:00Z (the Monday after, day 18) is retained next to the one of today.
\<close>

theorem desiredWeatherData_keeps_next_week:
  "desiredWeatherData utc_host 1589180400000
     (JArr [hourly ''2020-05-11T08:00:00.000Z'' ''clear'' 21 40 3,
            hourly ''2020-05-12T08:00:00.000Z'' ''rain'' 18 70 5,
            hourly ''2020-05-18T08:00:00.000Z'' ''cloudy'' 17 60 4])
     = Inr [hourly ''2020-05-11T08:00:00.000Z'' ''clear'' 21 40 3,
            hourly ''2020-05-18T08:00:00.000Z'' ''cloudy'' 17 60 4] \<and>
   getDate utc_host (Some 1589180400000) = Some 11 \<and>
   getDay utc_host (Some 1589180400000) = Some 1 \<and>
   getHours utc_host (observation_date utc_host (hourly ''2020-05-18T08:00:00.000Z'' ''cloudy'' 17 60 4)) = Some 8 \<and>
   getDate utc_host (observation_date utc_host (hourly ''2020-05-18T08:00:00.000Z'' ''cloudy'' 17 60 4)) = Some 18 \<and>
   getDay utc_host (observation_date utc_host (hourly ''2020-05-18T08:00:00.000Z'' ''cloudy'' 17 60 4)) = Some 1"
  by code_simp

lemma forecastAttachments_map:
  "forecastAttachments fw fa =
     map (\<lambda>e. \<lparr>path = weather_image e, cid = weather_entry.cid e\<rparr>) fw
     @ map (\<lambda>e. \<lparr>path = air_image e, cid = air_entry.cid e\<rparr>) fa"
  by (simp add: forecastAttachments_def foldl_push_map)

text \<open>
  Claim C6.  For every formatted weather list and formatted air-quality list, the
  attachment list the job builds is the list of the weather attachments
  \<^verbatim>\<open>{path: weather_image, cid}\<close> in the order of the formatted weather list, followed
  by the list of the air-quality attachments \<^verbatim>\<open>{path: air_image, cid}\<close> in the order of
  the formatted air-quality list; these are the attachments of the email the job sends.
\<close>

theorem forecastAttachments_order:
  "forecastAttachments fw fa =
     map (\<lambda>e. \<lparr>path = weather_image e, cid = weather_entry.cid e\<rparr>) fw
     @ map (\<lambda>e. \<lparr>path = air_image e, cid = air_entry.cid e\<rparr>) fa \<and>
   (weatherForecastJob rt now airQualityData weatherData = Inr mail \<longrightarrow>
      (\<exists>formattedWeatherData formattedAirQualityData.
         html_of mail = ForecastReplacements formattedWeatherData formattedAirQualityData \<and>
         attachments mail =
           map (\<lambda>e. \<lparr>path = weather_image e, cid = weather_entry.cid e\<rparr>) formattedWeatherData
           @ map (\<lambda>e. \<lparr>path = air_image e, cid = air_entry.cid e\<rparr>) formattedAirQualityData))"
  by (auto simp: forecastAttachments_map weatherForecastJob_def bind_res_def
        sendWeatherForecastEmail_def split: sum.splits)

theorem forecastAttachments_order_witness:
  "\<exists>mail. weatherForecastJob utc_host 1589180400000 (air_response 8000 100 10 20 30 40)
      (JArr [hourly ''2020-05-11T08:00:00.000Z'' ''clear'' 21 40 3,
             hourly ''2020-05-11T09:00:00.000Z'' ''clear'' 22 40 3,
             hourly ''2020-05-11T10:00:00.000Z'' ''rain'' 19 65 5]) = Inr mail \<and>
     attachments mail =
       [\<lparr>path = ''./summary-icons/clear.png'', cid = ''wid0''\<rparr>,
        \<lparr>path = ''./summary-icons/rain.png'', cid = ''wid1''\<rparr>,
        \<lparr>path = ''./legends/pm10-legend.png'', cid = ''aid0''\<rparr>,
        \<lparr>path = ''./legends/pm25-legend.png'', cid = ''aid1''\<rparr>,
        \<lparr>path = ''./legends/o3-legend.png'', cid = ''aid2''\<rparr>,
        \<lparr>path = ''./legends/no2-legend.png'', cid = ''aid3''\<rparr>,
        \<lparr>path = ''./legends/co-legend.png'', cid = ''aid4''\<rparr>,
        \<lparr>path = ''./legends/so2-legend.png'', cid = ''aid5''\<rparr>] \<and>
     (\<exists>formattedWeatherData formattedAirQualityData.
         html_of mail = ForecastReplacements formattedWeatherData formattedAirQualityData \<and>
         attachments mail =
           map (\<lambda>e. \<lparr>path = weather_image e, cid = weather_entry.cid e\<rparr>) formattedWeatherData
           @ map (\<lambda>e. \<lparr>path = air_image e, cid = air_entry.cid e\<rparr>) formattedAirQualityData)"
proof -
  have "map_sum id attachments
      (weatherForecastJob utc_host 1589180400000 (air_response 8000 100 10 20 30 40)
        (JArr [hourly ''2020-05-11T08:00:00.000Z'' ''clear'' 21 40 3,
               hourly ''2020-05-11T09:00:00.000Z'' ''clear'' 22 40 3,
               hourly ''2020-05-11T10:00:00.000Z'' ''rain'' 19 65 5])) =
     Inr [\<lparr>path = ''./summary-icons/clear.png'', cid = ''wid0''\<rparr>,
          \<lparr>path = ''./summary-icons/rain.png'', cid = ''wid1''\<rparr>,
          \<lparr>path = ''./legends/pm10-legend.png'', cid = ''aid0''\<rparr>,
          \<lparr>path = ''./legends/pm25-legend.png'', cid = ''aid1''\<rparr>,
          \<lparr>path = ''./legends/o3-legend.png'', cid = ''aid2''\<rparr>,
          \<lparr>path = ''./legends/no2-legend.png'', cid = ''aid3''\<rparr>,
          \<lparr>path = ''./legends/co-legend.png'', cid = ''aid4''\<rparr>,
          \<lparr>path = ''./legends/so2-legend.png'', cid = ''aid5''\<rparr>]"
    by code_simp
  then obtain mail where m: "weatherForecastJob utc_host 1589180400000 (air_response 8000 100 10 20 30 40)
      (JArr [hourly ''2020-05-11T08:00:00.000Z'' ''clear'' 21 40 3,
             hourly ''2020-05-11T09:00:00.000Z'' ''clear'' 22 40 3,
             hourly ''2020-05-11T10:00:00.000Z'' ''rain'' 19 65 5]) = Inr mail"
    and a: "attachments mail =
       [\<lparr>path = ''./summary-icons/clear.png'', cid = ''wid0''\<rparr>,
        \<lparr>path = ''./summary-icons/rain.png'', cid = ''wid1''\<rparr>,
        \<lparr>path = ''./legends/pm10-legend.png'', cid = ''aid0''\<rparr>,
        \<lparr>path = ''./legends/pm25-legend.png'', cid = ''aid1''\<rparr>,
        \<lparr>path = ''./legends/o3-legend.png'', cid = ''aid2''\<rparr>,
        \<lparr>path = ''./legends/no2-legend.png'', cid = ''aid3''\<rparr>,
        \<lparr>path = ''./legends/co-legend.png'', cid = ''aid4''\<rparr>,
        \<lparr>path = ''./legends/so2-legend.png'', cid = ''aid5''\<rparr>]"
    by (cases "weatherForecastJob utc_host 1589180400000 (air_response 8000 100 10 20 30 40)
      (JArr [hourly ''2020-05-11T08:00:00.000Z'' ''clear'' 21 40 3,
             hourly ''2020-05-11T09:00:00.000Z'' ''clear'' 22 40 3,
             hourly ''2020-05-11T10:00:00.000Z'' ''rain'' 19 65 5])") auto
  from forecastAttachments_order[of _ _ utc_host 1589180400000 "air_response 8000 100 10 20 30 40" _ mail] m a
  show ?thesis by blast
qed

section \<open>airQualityAlertJob\<close>

lemma alertAttachments_map:
  "alertAttachments alerts = map (\<lambda>e. \<lparr>path = air_image e, cid = air_entry.cid e\<rparr>) alerts"
  by (simp add: alertAttachments_def foldl_push_map)

lemma js_gt_iff:
  "js_gt rt v th \<longleftrightarrow> (\<exists>x t. ToNumber rt v = Some x \<and> th = Some t \<and> t < x)"
  by (auto simp: js_gt_def split: option.splits)

lemma airQualityAlertJob_formatted:
  assumes "formatAirQualityData d = Inr formatted"
  shows "airQualityAlertJob rt d =
           Inr (if alertsForTheseIndicators rt thresholds formatted = [] then None
                else Some (sendAirQualityEmailAlert (alertsForTheseIndicators rt thresholds formatted)
                       (map (\<lambda>e. \<lparr>path = air_image e, cid = air_entry.cid e\<rparr>)
                          (alertsForTheseIndicators rt thresholds formatted))))"
  using assms by (simp add: airQualityAlertJob_def bind_res_def alertAttachments_map Let_def)

text \<open>
  Claim C2.  For every air-quality input that formatAirQualityData formats, the entries
  the alert job selects are exactly the formatted entries whose current_value is
  strictly greater than the entry of the threshold table for their indicator (as
  numbers, after the conversion the comparison makes), in the order of the formatted
  list; the job completes normally, and it sends the alert email, with exactly the
  selected entries and one attachment for each, if and only if the selection is not
  empty.
\<close>

theorem airQualityAlertJob_selection:
  assumes "formatAirQualityData d = Inr formatted"
  shows "alertsForTheseIndicators rt thresholds formatted =
           filter (\<lambda>e. \<exists>x t. ToNumber rt (current_value e) = Some x \<and>
                             thresholds (indicator e) = Some t \<and> t < x) formatted \<and>
         (\<forall>e\<in>set formatted. \<forall>x. current_value e = JNum x \<longrightarrow>
             (e \<in> set (alertsForTheseIndicators rt thresholds formatted)
                \<longleftrightarrow> (\<exists>t. thresholds (indicator e) = Some t \<and> t < x))) \<and>
         airQualityAlertJob rt d =
           Inr (if alertsForTheseIndicators rt thresholds formatted = [] then None
                else Some (sendAirQualityEmailAlert (alertsForTheseIndicators rt thresholds formatted)
                       (map (\<lambda>e. \<lparr>path = air_image e, cid = air_entry.cid e\<rparr>)
                          (alertsForTheseIndicators rt thresholds formatted)))) \<and>
         ((\<exists>mail. airQualityAlertJob rt d = Inr (Some mail))
             \<longleftrightarrow> alertsForTheseIndicators rt thresholds formatted \<noteq> [])"
proof -
  have sel: "alertsForTheseIndicators rt thresholds formatted =
           filter (\<lambda>e. \<exists>x t. ToNumber rt (current_value e) = Some x \<and>
                             thresholds (indicator e) = Some t \<and> t < x) formatted"
    by (simp add: alertsForTheseIndicators_def js_gt_iff)
  have num: "\<forall>e\<in>set formatted. \<forall>x. current_value e = JNum x \<longrightarrow>
             (e \<in> set (alertsForTheseIndicators rt thresholds formatted)
                \<longleftrightarrow> (\<exists>t. thresholds (indicator e) = Some t \<and> t < x))"
    by (auto simp: alertsForTheseIndicators_def js_gt_iff ToNumber_def)
  have job: "airQualityAlertJob rt d =
           Inr (if alertsForTheseIndicators rt thresholds formatted = [] then None
                else Some (sendAirQualityEmailAlert (alertsForTheseIndicators rt thresholds formatted)
                       (map (\<lambda>e. \<lparr>path = air_image e, cid = air_entry.cid e\<rparr>)
                          (alertsForTheseIndicators rt thresholds formatted))))"
    using assms by (rule airQualityAlertJob_formatted)
  from job have "(\<exists>mail. airQualityAlertJob rt d = Inr (Some mail))
             \<longleftrightarrow> alertsForTheseIndicators rt thresholds formatted \<noteq> []"
    by simp
  with sel num job show ?thesis by blast
qed

text \<open>
  The examples of the claim: with co at 8000 and no2 at 100 (and the other indicators
  below their thresholds) only co is selected and the alert is sent for it; with every
  value at its threshold nothing is selected, no email is sent and the job completes;
  and for the two entries co: 8000 and no2: 100 against the thresholds co: 7000 and
  no2: 230 the selection is the co entry.
\<close>

theorem airQualityAlertJob_selection_witness:
  "airQualityAlertJob utc_host (air_response 8000 100 10 20 30 40) =
     Inr (Some \<lparr>subject = ''An air quality limit has been exceeded'',
                html_of = AlertReplacements
                  [\<lparr>indicator = ''co'', current_value = JNum 8000,
                    air_image = ''./legends/co-legend.png'', cid = ''aid4''\<rparr>],
                attachments = [\<lparr>path = ''./legends/co-legend.png'', cid = ''aid4''\<rparr>]\<rparr>) \<and>
   airQualityAlertJob utc_host (air_response 7000 230 145 204 45 131) = Inr None \<and>
   alertsForTheseIndicators utc_host (map_of [(''co'', 7000), (''no2'', 230)])
     [\<lparr>indicator = ''co'', current_value = JNum 8000, air_image = ''./legends/co-legend.png'', cid = ''aid4''\<rparr>,
      \<lparr>indicator = ''no2'', current_value = JNum 100, air_image = ''./legends/no2-legend.png'', cid = ''aid3''\<rparr>]
   = [\<lparr>indicator = ''co'', current_value = JNum 8000, air_image = ''./legends/co-legend.png'', cid = ''aid4''\<rparr>]"
proof -
  have s1: "alertsForTheseIndicators utc_host thresholds
     [\<lparr>indicator = ''pm10'', current_value = JNum 20, air_image = ''./legends/pm10-legend.png'', cid = ''aid0''\<rparr>,
      \<lparr>indicator = ''pm25'', current_value = JNum 30, air_image = ''./legends/pm25-legend.png'', cid = ''aid1''\<rparr>,
      \<lparr>indicator = ''o3'', current_value = JNum 10, air_image = ''./legends/o3-legend.png'', cid = ''aid2''\<rparr>,
      \<lparr>indicator = ''no2'', current_value = JNum 100, air_image = ''./legends/no2-legend.png'', cid = ''aid3''\<rparr>,
      \<lparr>indicator = ''co'', current_value = JNum 8000, air_image = ''./legends/co-legend.png'', cid = ''aid4''\<rparr>,
      \<lparr>indicator = ''so2'', current_value = JNum 40, air_image = ''./legends/so2-legend.png'', cid = ''aid5''\<rparr>]
     = [\<lparr>indicator = ''co'', current_value = JNum 8000, air_image = ''./legends/co-legend.png'', cid = ''aid4''\<rparr>]"
    by code_simp
  have s2: "alertsForTheseIndicators utc_host thresholds
     [\<lparr>indicator = ''pm10'', current_value = JNum 204, air_image = ''./legends/pm10-legend.png'', cid = ''aid0''\<rparr>,
      \<lparr>indicator = ''pm25'', current_value = JNum 45, air_image = ''./legends/pm25-legend.png'', cid = ''aid1''\<rparr>,
      \<lparr>indicator = ''o3'', current_value = JNum 145, air_image = ''./legends/o3-legend.png'', cid = ''aid2''\<rparr>,
      \<lparr>indicator = ''no2'', current_value = JNum 230, air_image = ''./legends/no2-legend.png'', cid = ''aid3''\<rparr>,
      \<lparr>indicator = ''co'', current_value = JNum 7000, air_image = ''./legends/co-legend.png'', cid = ''aid4''\<rparr>,
      \<lparr>indicator = ''so2'', current_value = JNum 131, air_image = ''./legends/so2-legend.png'', cid = ''aid5''\<rparr>]
     = []"
    by code_simp
  have s3: "alertsForTheseIndicators utc_host (map_of [(''co'', 7000), (''no2'', 230)])
     [\<lparr>indicator = ''co'', current_value = JNum 8000, air_image = ''./legends/co-legend.png'', cid = ''aid4''\<rparr>,
      \<lparr>indicator = ''no2'', current_value = JNum 100, air_image = ''./legends/no2-legend.png'', cid = ''aid3''\<rparr>]
   = [\<lparr>indicator = ''co'', current_value = JNum 8000, air_image = ''./legends/co-legend.png'', cid = ''aid4''\<rparr>]"
    by code_simp
  from airQualityAlertJob_selection
         [OF formatAirQualityData_air_response [of 8000 100 10 20 30 40], of utc_host]
       airQualityAlertJob_selection
         [OF formatAirQualityData_air_response [of 7000 230 145 204 45 131], of utc_host]
       s1 s2 s3
  show ?thesis
    by (simp add: sendAirQualityEmailAlert_def)
qed

section \<open>Correlation ids\<close>

lemma digit_char_inj: "a < 10 \<Longrightarrow> b < 10 \<Longrightarrow> digit_char a = digit_char b \<Longrightarrow> a = b"
  unfolding digit_char_def using nth_eq_iff_index_eq[of "''0123456789''" a b] by simp

lemma show_nat_inj: "show_nat a = show_nat b \<Longrightarrow> a = b"
proof (induction a arbitrary: b rule: show_nat.induct)
  case (1 n)
  show ?case
  proof (cases "n < 10")
    case True
    have "b < 10"
    proof (rule ccontr)
      assume "\<not> b < 10"
      then have "show_nat b = show_nat (b div 10) @ [digit_char (b mod 10)]"
        by (rule show_nat_step)
      with "1.prems" True show_nat_nonempty[of "b div 10"] show False
        by (simp add: show_nat_digit)
    qed
    with True "1.prems" show ?thesis
      by (auto simp: show_nat_digit dest: digit_char_inj)
  next
    case False
    have bge: "\<not> b < 10"
    proof
      assume "b < 10"
      with "1.prems" False show_nat_nonempty[of "n div 10"] show False
        by (simp add: show_nat_digit show_nat_step)
    qed
    from "1.prems" False bge
    have eq: "show_nat (n div 10) = show_nat (b div 10)"
      and d: "digit_char (n mod 10) = digit_char (b mod 10)"
      by (simp_all add: show_nat_step)
    from "1.IH"[OF False eq] have "n div 10 = b div 10" .
    moreover from d have "n mod 10 = b mod 10"
      by (rule digit_char_inj[rotated 2]) simp_all
    ultimately show ?thesis
      by (metis div_mult_mod_eq)
  qed
qed

lemma distinct_ids:
  "distinct (map (\<lambda>i. ''wid'' @ show_nat i) [0..<n] @ map (\<lambda>i. ''aid'' @ show_nat i) [0..<m])"
proof -
  have "inj_on (\<lambda>i. ''wid'' @ show_nat i) A" and "inj_on (\<lambda>i. ''aid'' @ show_nat i) A" for A
    by (auto intro!: inj_onI dest: show_nat_inj)
  then show ?thesis
    by (auto simp: distinct_map)
qed

lemma formatWeatherEntry_cid:
  "formatWeatherEntry rt e i = Inr x \<Longrightarrow> weather_entry.cid x = ''wid'' @ show_nat i"
  by (auto simp: formatWeatherEntry_def bind_res_def split: sum.splits)

lemma formatWeatherData_cids:
  assumes "formatWeatherData rt data = Inr fw"
  shows "map weather_entry.cid fw = map (\<lambda>i. ''wid'' @ show_nat i) [0..<length fw]"
proof (rule nth_equalityI)
  show "length (map weather_entry.cid fw) = length (map (\<lambda>i. ''wid'' @ show_nat i) [0..<length fw])"
    by simp
next
  fix i assume "i < length (map weather_entry.cid fw)"
  with assms have "i < length fw" and "formatWeatherEntry rt (data ! i) i = Inr (fw ! i)"
    by (auto simp: formatWeatherData_def forEach_push_Inr)
  then show "map weather_entry.cid fw ! i = map (\<lambda>i. ''wid'' @ show_nat i) [0..<length fw] ! i"
    by (simp add: formatWeatherEntry_cid)
qed

lemma formatAirQualityData_nth:
  assumes "formatAirQualityData d = Inr fa" and "i < 6"
  shows "indicator (fa ! i) = AIR_QUALITY_INDICATOR ! i \<and> air_entry.cid (fa ! i) = ''aid'' @ show_nat i"
  using assms by (auto simp: formatAirQualityData_Inr airQualityBox_Inr length_indicators)

lemma formatAirQualityData_cids:
  assumes "formatAirQualityData d = Inr fa"
  shows "map air_entry.cid fa = map (\<lambda>i. ''aid'' @ show_nat i) [0..<6]"
proof (rule nth_equalityI)
  from assms show "length (map air_entry.cid fa) = length (map (\<lambda>i. ''aid'' @ show_nat i) [0..<6])"
    by (simp add: formatAirQualityData_Inr length_indicators)
next
  fix i assume "i < length (map air_entry.cid fa)"
  with assms have i: "i < 6" by (simp add: formatAirQualityData_Inr length_indicators)
  with assms formatAirQualityData_nth[OF assms i]
  show "map air_entry.cid fa ! i = map (\<lambda>i. ''aid'' @ show_nat i) [0..<6] ! i"
    by (simp add: formatAirQualityData_Inr length_indicators)
qed

lemma forecast_mail:
  assumes "weatherForecastJob rt now airQualityData weatherData = Inr mail"
  shows "\<exists>desiredData fw fa.
           formatWeatherData rt desiredData = Inr fw \<and> formatAirQualityData airQualityData = Inr fa \<and>
           html_of mail = ForecastReplacements fw fa \<and>
           attachments mail =
             map (\<lambda>e. \<lparr>path = weather_image e, cid = weather_entry.cid e\<rparr>) fw
             @ map (\<lambda>e. \<lparr>path = air_image e, cid = air_entry.cid e\<rparr>) fa"
  using assms
  by (auto simp: forecastAttachments_map weatherForecastJob_def bind_res_def
        sendWeatherForecastEmail_def split: sum.splits)

lemma alert_mail:
  assumes "airQualityAlertJob rt airQualityData = Inr (Some alert)"
  shows "\<exists>formatted. formatAirQualityData airQualityData = Inr formatted \<and>
           html_of alert = AlertReplacements (alertsForTheseIndicators rt thresholds formatted) \<and>
           attachments alert =
             map (\<lambda>e. \<lparr>path = air_image e, cid = air_entry.cid e\<rparr>)
               (alertsForTheseIndicators rt thresholds formatted)"
proof (cases "formatAirQualityData airQualityData")
  case (Inl err)
  with assms show ?thesis
    by (simp add: airQualityAlertJob_def bind_res_def)
next
  case (Inr formatted)
  from assms airQualityAlertJob_formatted[OF Inr, of rt] Inr show ?thesis
    by (auto simp: sendAirQualityEmailAlert_def split: if_splits)
qed

text \<open>
  Claim C10.  The correlation ids of the attachments of one email are pairwise
  distinct.  In the forecast email the attachments carry the ids of the formatted
  weather entries, wid0, wid1, ... up to their number, followed by aid0 ... aid5, the
  ids of the entries rendered in the template.  In the alert email every selected entry
  is an entry of the full formatted list and keeps the id \<^verbatim>\<open>aid<i>\<close> of its index \<open>i\<close>
  in the indicator set, not its index in the selection; the attachments carry the ids
  of the entries rendered in the template, in the same order, and these are distinct.
\<close>

theorem correlation_ids_distinct:
  "(weatherForecastJob rt now airQualityData weatherData = Inr mail \<longrightarrow>
      (\<exists>fw fa. html_of mail = ForecastReplacements fw fa \<and>
         map attachment.cid (attachments mail) = map weather_entry.cid fw @ map air_entry.cid fa \<and>
         map weather_entry.cid fw = map (\<lambda>i. ''wid'' @ show_nat i) [0..<length fw] \<and>
         map air_entry.cid fa = map (\<lambda>i. ''aid'' @ show_nat i) [0..<6] \<and>
         distinct (map attachment.cid (attachments mail)))) \<and>
   (airQualityAlertJob rt airQualityData = Inr (Some alert) \<longrightarrow>
      (\<exists>formatted alerts.
         formatAirQualityData airQualityData = Inr formatted \<and>
         html_of alert = AlertReplacements alerts \<and>
         map attachment.cid (attachments alert) = map air_entry.cid alerts \<and>
         distinct (map attachment.cid (attachments alert)) \<and>
         (\<forall>e\<in>set alerts. \<exists>i<6. e = formatted ! i \<and> indicator e = AIR_QUALITY_INDICATOR ! i \<and>
                                 air_entry.cid e = ''aid'' @ show_nat i)))"
proof (intro conjI impI)
  assume "weatherForecastJob rt now airQualityData weatherData = Inr mail"
  from forecast_mail[OF this] obtain desiredData fw fa where
    fw: "formatWeatherData rt desiredData = Inr fw" and fa: "formatAirQualityData airQualityData = Inr fa"
    and h: "html_of mail = ForecastReplacements fw fa"
    and a: "attachments mail =
             map (\<lambda>e. \<lparr>path = weather_image e, cid = weather_entry.cid e\<rparr>) fw
             @ map (\<lambda>e. \<lparr>path = air_image e, cid = air_entry.cid e\<rparr>) fa"
    by blast
  from a have c: "map attachment.cid (attachments mail) = map weather_entry.cid fw @ map air_entry.cid fa"
    by (simp add: comp_def)
  note w = formatWeatherData_cids[OF fw] and q = formatAirQualityData_cids[OF fa]
  have "distinct (map attachment.cid (attachments mail))"
    unfolding c w q by (rule distinct_ids)
  with h c w q
  show "\<exists>fw fa. html_of mail = ForecastReplacements fw fa \<and>
         map attachment.cid (attachments mail) = map weather_entry.cid fw @ map air_entry.cid fa \<and>
         map weather_entry.cid fw = map (\<lambda>i. ''wid'' @ show_nat i) [0..<length fw] \<and>
         map air_entry.cid fa = map (\<lambda>i. ''aid'' @ show_nat i) [0..<6] \<and>
         distinct (map attachment.cid (attachments mail))"
    by blast
next
  assume "airQualityAlertJob rt airQualityData = Inr (Some alert)"
  from alert_mail[OF this] obtain formatted where
    f: "formatAirQualityData airQualityData = Inr formatted"
    and h: "html_of alert = AlertReplacements (alertsForTheseIndicators rt thresholds formatted)"
    and a: "attachments alert =
             map (\<lambda>e. \<lparr>path = air_image e, cid = air_entry.cid e\<rparr>)
               (alertsForTheseIndicators rt thresholds formatted)"
    by blast
  define alerts where "alerts = alertsForTheseIndicators rt thresholds formatted"
  from a have c: "map attachment.cid (attachments alert) = map air_entry.cid alerts"
    by (simp add: comp_def alerts_def)
  have "distinct (map air_entry.cid formatted)"
    unfolding formatAirQualityData_cids[OF f] using distinct_ids[of 0 6] by simp
  then have d: "distinct (map attachment.cid (attachments alert))"
    unfolding c alerts_def alertsForTheseIndicators_def by (rule distinct_map_filter)
  have len: "length formatted = 6"
    using f by (simp add: formatAirQualityData_Inr length_indicators)
  have each: "\<forall>e\<in>set alerts. \<exists>i<6. e = formatted ! i \<and> indicator e = AIR_QUALITY_INDICATOR ! i \<and>
                                 air_entry.cid e = ''aid'' @ show_nat i"
  proof
    fix e assume "e \<in> set alerts"
    then have "e \<in> set formatted" by (simp add: alerts_def alertsForTheseIndicators_def)
    then obtain i where i: "i < 6" "e = formatted ! i"
      using len by (auto simp: in_set_conv_nth)
    with formatAirQualityData_nth[OF f i(1)]
    show "\<exists>i<6. e = formatted ! i \<and> indicator e = AIR_QUALITY_INDICATOR ! i \<and>
                                 air_entry.cid e = ''aid'' @ show_nat i"
      by blast
  qed
  from f h c d each
  show "\<exists>formatted alerts.
         formatAirQualityData airQualityData = Inr formatted \<and>
         html_of alert = AlertReplacements alerts \<and>
         map attachment.cid (attachments alert) = map air_entry.cid alerts \<and>
         distinct (map attachment.cid (attachments alert)) \<and>
         (\<forall>e\<in>set alerts. \<exists>i<6. e = formatted ! i \<and> indicator e = AIR_QUALITY_INDICATOR ! i \<and>
                                 air_entry.cid e = ''aid'' @ show_nat i)"
    unfolding alerts_def by blast
qed

theorem correlation_ids_distinct_witness:
  "map_sum id (\<lambda>m. map attachment.cid (attachments m))
      (weatherForecastJob utc_host 1589180400000 (air_response 8000 100 10 20 30 9999)
        (JArr [hourly ''2020-05-11T08:00:00.000Z'' ''clear'' 21 40 3,
               hourly ''2020-05-11T09:00:00.000Z'' ''clear'' 22 40 3,
               hourly ''2020-05-11T10:00:00.000Z'' ''rain'' 19 65 5]))
     = Inr [''wid0'', ''wid1'', ''aid0'', ''aid1'', ''aid2'', ''aid3'', ''aid4'', ''aid5''] \<and>
   map_sum id (map_option (\<lambda>m. map attachment.cid (attachments m)))
      (airQualityAlertJob utc_host (air_response 8000 100 10 20 30 9999))
     = Inr (Some [''aid4'', ''aid5'']) \<and>
   (\<exists>mail alert.
      weatherForecastJob utc_host 1589180400000 (air_response 8000 100 10 20 30 9999)
        (JArr [hourly ''2020-05-11T08:00:00.000Z'' ''clear'' 21 40 3,
               hourly ''2020-05-11T09:00:00.000Z'' ''clear'' 22 40 3,
               hourly ''2020-05-11T10:00:00.000Z'' ''rain'' 19 65 5]) = Inr mail \<and>
      airQualityAlertJob utc_host (air_response 8000 100 10 20 30 9999) = Inr (Some alert) \<and>
      distinct (map attachment.cid (attachments mail)) \<and>
      distinct (map attachment.cid (attachments alert)))"
proof -
  have e1: "map_sum id (\<lambda>m. map attachment.cid (attachments m))
      (weatherForecastJob utc_host 1589180400000 (air_response 8000 100 10 20 30 9999)
        (JArr [hourly ''2020-05-11T08:00:00.000Z'' ''clear'' 21 40 3,
               hourly ''2020-05-11T09:00:00.000Z'' ''clear'' 22 40 3,
               hourly ''2020-05-11T10:00:00.000Z'' ''rain'' 19 65 5]))
     = Inr [''wid0'', ''wid1'', ''aid0'', ''aid1'', ''aid2'', ''aid3'', ''aid4'', ''aid5'']"
    by code_simp
  have e2: "map_sum id (map_option (\<lambda>m. map attachment.cid (attachments m)))
      (airQualityAlertJob utc_host (air_response 8000 100 10 20 30 9999))
     = Inr (Some [''aid4'', ''aid5''])"
    by code_simp
  from e1 obtain mail where m: "weatherForecastJob utc_host 1589180400000 (air_response 8000 100 10 20 30 9999)
        (JArr [hourly ''2020-05-11T08:00:00.000Z'' ''clear'' 21 40 3,
               hourly ''2020-05-11T09:00:00.000Z'' ''clear'' 22 40 3,
               hourly ''2020-05-11T10:00:00.000Z'' ''rain'' 19 65 5]) = Inr mail"
    by (cases "weatherForecastJob utc_host 1589180400000 (air_response 8000 100 10 20 30 9999)
        (JArr [hourly ''2020-05-11T08:00:00.000Z'' ''clear'' 21 40 3,
               hourly ''2020-05-11T09:00:00.000Z'' ''clear'' 22 40 3,
               hourly ''2020-05-11T10:00:00.000Z'' ''rain'' 19 65 5])") auto
  from e2 obtain alert where a: "airQualityAlertJob utc_host (air_response 8000 100 10 20 30 9999) = Inr (Some alert)"
    by (cases "airQualityAlertJob utc_host (air_response 8000 100 10 20 30 9999)") auto
  from correlation_ids_distinct
         [of utc_host 1589180400000 "air_response 8000 100 10 20 30 9999"
             "JArr [hourly ''2020-05-11T08:00:00.000Z'' ''clear'' 21 40 3,
                    hourly ''2020-05-11T09:00:00.000Z'' ''clear'' 22 40 3,
                    hourly ''2020-05-11T10:00:00.000Z'' ''rain'' 19 65 5]" mail alert] m a
  have "distinct (map attachment.cid (attachments mail))"
    and "distinct (map attachment.cid (attachments alert))"
    by blast+
  with e1 e2 m a show ?thesis by blast
qed

section \<open>queryBuilder\<close>

lemma add_param_eq:
  "add_param request key text =
     (if request = [] \<or> last request \<noteq> CHR ''?'' then request @ ''&'' else request) @ (key @ ''='' @ text)"
  by (simp add: add_param_def)

lemma foldl_add_elems:
  "foldl (\<lambda>request e. case scalar_text n2s e of
                         Some text \<Rightarrow> add_param request key text
                       | None \<Rightarrow> request) request es =
   foldl (\<lambda>request p. (if request = [] \<or> last request \<noteq> CHR ''?'' then request @ ''&'' else request) @ p)
     request (map (\<lambda>text. key @ ''='' @ text) (List.map_filter (scalar_text n2s) es))"
proof (induction es arbitrary: request)
  case Nil
  show ?case by (simp add: List.map_filter_simps)
next
  case (Cons e es)
  show ?case
    by (cases "scalar_text n2s e") (simp_all add: List.map_filter_simps Cons.IH add_param_eq)
qed

lemma add_key_params:
  assumes "map_of options key = Some v"
  shows "add_key n2s options request key =
     foldl (\<lambda>request p. (if request = [] \<or> last request \<noteq> CHR ''?'' then request @ ''&'' else request) @ p)
       request (spec_params n2s [(key, v)])"
proof (cases "scalar_text n2s v")
  case (Some s)
  with assms show ?thesis
    by (simp add: add_key_def spec_params_def add_param_eq)
next
  case None
  with assms show ?thesis
    by (cases v) (simp_all add: add_key_def spec_params_def foldl_add_elems)
qed

lemma spec_params_Cons: "spec_params n2s (kv # kvs) = spec_params n2s [kv] @ spec_params n2s kvs"
  by (simp add: spec_params_def)

lemma foldl_add_keys:
  assumes "\<forall>(key, v)\<in>set kvs. map_of options key = Some v"
  shows "foldl (add_key n2s options) request (map fst kvs) =
     foldl (\<lambda>request p. (if request = [] \<or> last request \<noteq> CHR ''?'' then request @ ''&'' else request) @ p)
       request (spec_params n2s kvs)"
  using assms
proof (induction kvs arbitrary: request)
  case Nil
  show ?case by (simp add: spec_params_def)
next
  case (Cons kv kvs)
  obtain key v where kv: "kv = (key, v)" by (cases kv)
  with Cons.prems have "map_of options key = Some v" by simp
  from add_key_params[OF this, of n2s request] Cons.prems kv
  show ?case
    by (subst spec_params_Cons) (simp add: Cons.IH)
qed

lemma queryBuilder_params:
  assumes "distinct (map fst options)"
  shows "queryBuilder n2s request options =
     foldl (\<lambda>request p. (if request = [] \<or> last request \<noteq> CHR ''?'' then request @ ''&'' else request) @ p)
       (request @ ''?'') (spec_params n2s options)"
proof -
  from assms have "\<forall>(key, v)\<in>set options. map_of options key = Some v"
    by auto
  then show ?thesis
    unfolding queryBuilder_def by (rule foldl_add_keys)
qed

lemma foldl_amp:
  assumes "\<forall>p\<in>set ps. p \<noteq> [] \<and> last p \<noteq> CHR ''?''" and "r \<noteq> []" and "last r \<noteq> CHR ''?''"
  shows "foldl (\<lambda>request p. (if request = [] \<or> last request \<noteq> CHR ''?'' then request @ ''&'' else request) @ p)
           r ps = r @ concat (map (\<lambda>p. ''&'' @ p) ps)"
  using assms by (induction ps arbitrary: r) simp_all

lemma join_amp_Cons: "join_amp (p # ps) = p @ concat (map (\<lambda>p. ''&'' @ p) ps)"
  by (induction ps arbitrary: p) simp_all

lemma foldl_question_mark:
  assumes "\<forall>p\<in>set ps. p \<noteq> [] \<and> last p \<noteq> CHR ''?''"
  shows "foldl (\<lambda>request p. (if request = [] \<or> last request \<noteq> CHR ''?'' then request @ ''&'' else request) @ p)
           (r @ ''?'') ps = r @ ''?'' @ join_amp ps"
proof (cases ps)
  case Nil
  then show ?thesis by simp
next
  case (Cons p qs)
  with assms have "p \<noteq> []" "last p \<noteq> CHR ''?''" "\<forall>q\<in>set qs. q \<noteq> [] \<and> last q \<noteq> CHR ''?''"
    by simp_all
  with foldl_amp[of qs "r @ ''?'' @ p"] Cons show ?thesis
    by (simp add: join_amp_Cons)
qed

lemma spec_params_nonempty: "p \<in> set (spec_params n2s options) \<Longrightarrow> p \<noteq> []"
  by (auto simp: spec_params_def split: option.splits js_value.splits)

text \<open>
  Where queryBuilder agrees with the specification: for options with distinct keys
  none of whose emitted parameters ends in a question mark, the result is the base URL,
  \<^verbatim>\<open>?\<close>, and the parameters joined by \<^verbatim>\<open>&\<close>.
\<close>

lemma queryBuilder_spec:
  assumes "distinct (map fst options)"
    and "\<forall>p\<in>set (spec_params n2s options). last p \<noteq> CHR ''?''"
  shows "queryBuilder n2s request options = spec_queryBuilder n2s request options"
proof -
  from assms(2) have "\<forall>p\<in>set (spec_params n2s options). p \<noteq> [] \<and> last p \<noteq> CHR ''?''"
    by (auto dest: spec_params_nonempty)
  from foldl_question_mark[OF this, of request] queryBuilder_params[OF assms(1), of n2s request]
  show ?thesis by (simp add: spec_queryBuilder_def)
qed

lemma queryBuilder_spec_examples:
  "queryBuilder show_int ''u'' [(''a'', JNum 1), (''b'', JArr [JStr ''x'', JStr ''y''])] = ''u?a=1&b=x&b=y''"
  "queryBuilder show_int ''u'' [] = ''u?''"
  "queryBuilder show_int ''u'' [(''a'', JNum 1), (''skip'', JObj []), (''n'', JNull),
      (''b'', JArr [JStr ''x'', JBool True, JArr [JNum 2], JNum 3])] = ''u?a=1&b=x&b=3''"
  by code_simp+

text \<open>
  Claim C3.  The claim holds for the options above but not for all options of the
  claim: queryBuilder decides whether a parameter is the first one by looking at the
  last character of the request built so far, so a parameter that follows a value
  ending in \<^verbatim>\<open>?\<close> is added without the separating \<^verbatim>\<open>&\<close>.  For the options
  \<^verbatim>\<open>{a: "?", b: "x"}\<close> on the base \<^verbatim>\<open>u\<close> the result is \<^verbatim>\<open>u?a=?b=x\<close>, where the
  specification gives \<^verbatim>\<open>u?a=?&b=x\<close>; the same happens inside an array.
\<close>

theorem queryBuilder_question_mark_value:
  "queryBuilder n2s ''u'' [(''a'', JStr ''?''), (''b'', JStr ''x'')] = ''u?a=?b=x'' \<and>
   spec_queryBuilder n2s ''u'' [(''a'', JStr ''?''), (''b'', JStr ''x'')] = ''u?a=?&b=x'' \<and>
   queryBuilder n2s ''u'' [(''q'', JArr [JStr ''why?'', JStr ''x''])] = ''u?q=why?q=x'' \<and>
   spec_queryBuilder n2s ''u'' [(''q'', JArr [JStr ''why?'', JStr ''x''])] = ''u?q=why?&q=x''"
  by (simp add: queryBuilder_def add_key_def scalar_text_def add_param_def
        spec_queryBuilder_def spec_params_def List.map_filter_simps)

section \<open>The forecast timeline\<close>

lemma div_shift: "0 \<le> x \<Longrightarrow> x < c \<Longrightarrow> (q * c + x) div c = (q::int)"
  by (rule int_div_pos_eq[of _ c q x]) simp_all

lemma mod_shift: "0 \<le> x \<Longrightarrow> x < c \<Longrightarrow> (q * c + x) mod c = (x::int)"
  by (rule int_mod_pos_eq[of _ c q x]) simp_all

lemma day_fields:
  assumes "0 \<le> m" and "m < 1000"
  shows "Day (d * 86400000 + 28800000 + m) = d"
    and "HourFromTime (d * 86400000 + 28800000 + m) = 8"
    and "MinFromTime (d * 86400000 + 28800000 + m) = 0"
    and "SecFromTime (d * 86400000 + 28800000 + m) = 0"
proof -
  have "(d * 86400000 + (28800000 + m)) div 86400000 = d"
    using assms by (intro div_shift) simp_all
  then show "Day (d * 86400000 + 28800000 + m) = d"
    by (simp add: Day_def msPerDay_def add.assoc)
  have "((d * 24 + 8) * 3600000 + m) div 3600000 = d * 24 + 8"
    using assms by (intro div_shift) simp_all
  then show "HourFromTime (d * 86400000 + 28800000 + m) = 8"
    by (simp add: HourFromTime_def algebra_simps)
  have "((d * 1440 + 480) * 60000 + m) div 60000 = (d * 1440 + 480)"
    using assms by (intro div_shift) simp_all
  then show "MinFromTime (d * 86400000 + 28800000 + m) = 0"
    by (simp add: MinFromTime_def algebra_simps)
  have "((d * 86400 + 28800) * 1000 + m) div 1000 = (d * 86400 + 28800)"
    using assms by (intro div_shift) simp_all
  then show "SecFromTime (d * 86400000 + 28800000 + m) = 0"
    by (simp add: SecFromTime_def algebra_simps)
qed

lemma MakeDate_8: "MakeDate d (MakeTime 8 0 0 m) = d * 86400000 + 28800000 + m"
  by (simp add: MakeDate_def MakeTime_def msPerDay_def)

lemma msFromTime_bounds: "0 \<le> msFromTime t" "msFromTime t < 1000"
  by (simp_all add: msFromTime_def)

lemma steady_second_UTC:
  assumes "steady_second rt (MakeDate d (MakeTime 8 0 0 0))" and "0 \<le> m" and "m < 1000"
  shows "UTC rt (MakeDate d (MakeTime 8 0 0 m)) = UTC rt (MakeDate d (MakeTime 8 0 0 0)) + m"
    and "LocalTime rt (UTC rt (MakeDate d (MakeTime 8 0 0 0)) + m) = d * 86400000 + 28800000 + m"
proof -
  have e: "MakeDate d (MakeTime 8 0 0 m) = MakeDate d (MakeTime 8 0 0 0) + m"
    by (simp add: MakeDate_8)
  from assms show "UTC rt (MakeDate d (MakeTime 8 0 0 m)) = UTC rt (MakeDate d (MakeTime 8 0 0 0)) + m"
    unfolding e steady_second_def by blast
  from assms have "LocalTime rt (UTC rt (MakeDate d (MakeTime 8 0 0 0)) + m)
      = MakeDate d (MakeTime 8 0 0 0) + m"
    unfolding steady_second_def by blast
  then show "LocalTime rt (UTC rt (MakeDate d (MakeTime 8 0 0 0)) + m) = d * 86400000 + 28800000 + m"
    by (simp add: MakeDate_8)
qed

lemma setHours_8:
  assumes "steady_second rt (MakeDate (Day (LocalTime rt t)) (MakeTime 8 0 0 0))"
  shows "setHours rt t 8 0 0 =
           UTC rt (MakeDate (Day (LocalTime rt t)) (MakeTime 8 0 0 0)) + msFromTime (LocalTime rt t)"
  using steady_second_UTC(1)[OF assms msFromTime_bounds, of "LocalTime rt t"]
  by (simp add: setHours_def Let_def)

lemma setDate_next_day:
  "setDate rt t (DateFromTime (LocalTime rt t) + 1) = UTC rt (LocalTime rt t + msPerDay)"
proof -
  have "(Day (LocalTime rt t) + 1) * msPerDay + TimeWithinDay (LocalTime rt t) = LocalTime rt t + msPerDay"
    by (simp add: Day_def TimeWithinDay_def algebra_simps)
  then show ?thesis
    by (simp add: setDate_def MakeDate_def Let_def)
qed

lemma setTimeout_timeLeft: "setTimeout_run now (timeLeft rt now) = startDate rt now"
  by (simp add: setTimeout_run_def timeLeft_def)

lemma startDate_before:
  assumes "regular_clock rt now" and "now < today_at_8 rt now"
  shows "startDate rt now = today_at_8 rt now + msFromTime (LocalTime rt now)"
proof -
  from assms(1) have "steady_second rt (MakeDate (Day (LocalTime rt now)) (MakeTime 8 0 0 0))"
    by (simp add: regular_clock_def Let_def)
  from setHours_8[OF this] assms(2) msFromTime_bounds(1)[of "LocalTime rt now"]
  show ?thesis
    by (simp add: startDate_def Let_def today_at_8_def)
qed

lemma startDate_after:
  assumes "regular_clock rt now" and "today_at_8 rt now + 1000 \<le> now"
  shows "startDate rt now = tomorrow_at_8 rt now + msFromTime (LocalTime rt now)"
proof -
  define t1 where "t1 = UTC rt (LocalTime rt now + msPerDay)"
  from assms(1) have s0: "steady_second rt (MakeDate (Day (LocalTime rt now)) (MakeTime 8 0 0 0))"
    and s1: "steady_second rt (MakeDate (Day (LocalTime rt now) + 1) (MakeTime 8 0 0 0))"
    and d: "Day (LocalTime rt t1) = Day (LocalTime rt now) + 1"
    and m: "msFromTime (LocalTime rt t1) = msFromTime (LocalTime rt now)"
    by (simp_all add: regular_clock_def Let_def t1_def)
  from setHours_8[OF s0] assms(2) msFromTime_bounds(2)[of "LocalTime rt now"]
  have later: "setHours rt now 8 0 0 < now"
    by (simp add: today_at_8_def)
  from s1 d have "steady_second rt (MakeDate (Day (LocalTime rt t1)) (MakeTime 8 0 0 0))"
    by simp
  from setHours_8[OF this] d m
  have "setHours rt t1 8 0 0 = tomorrow_at_8 rt now + msFromTime (LocalTime rt now)"
    by (simp add: tomorrow_at_8_def)
  with later show ?thesis
    by (simp add: startDate_def Let_def setDate_next_day t1_def)
qed

lemma regular_clock_utc_host: "regular_clock utc_host now"
proof -
  have "(now + 86400000) div 86400000 = now div 86400000 + 1"
    by simp
  moreover have "(now + 1000 * 86400) mod 1000 = now mod 1000"
    by (rule mod_mult_self2)
  ultimately show ?thesis
    by (simp add: regular_clock_def steady_second_def Let_def LocalTime_def UTC_def
          LocalTZA_utc_host Day_def msFromTime_def msPerDay_def)
qed

lemma LocalTZA_pacific_host:
  "LocalTZA pacific_host t True = (if t < 1583661600000 then - 28800000 else - 25200000)"
  "LocalTZA pacific_host t False = (if t < 1583636400000 then - 28800000 else - 25200000)"
  by (simp_all add: pacific_host_def)

lemma regular_clock_pacific_host: "regular_clock pacific_host 1583600400000"
proof -
  have lt: "LocalTime pacific_host 1583600400000 = 1583571600000"
    and d: "Day 1583571600000 = 18328"
    and a: "MakeDate 18328 (MakeTime 8 0 0 0) = 1583568000000"
    and b: "MakeDate (18328 + 1) (MakeTime 8 0 0 0) = 1583654400000"
    and n: "Day (LocalTime pacific_host (UTC pacific_host (1583571600000 + msPerDay))) = 18328 + 1"
      "msFromTime (LocalTime pacific_host (UTC pacific_host (1583571600000 + msPerDay)))
         = msFromTime 1583571600000"
    by code_simp+
  have "steady_second pacific_host 1583568000000"
    by (simp add: steady_second_def LocalTime_def UTC_def LocalTZA_pacific_host)
  moreover have "steady_second pacific_host 1583654400000"
    by (simp add: steady_second_def LocalTime_def UTC_def LocalTZA_pacific_host)
  ultimately show ?thesis
    unfolding regular_clock_def Let_def lt d a b using n by simp
qed

text \<open>
  Claim C5, as amended.  With one reading \<open>now\<close> of the clock for the startup code, exact
  timers, and a host clock that is regular at \<open>now\<close> (no clock change of the zone falls
  into the second 08:00:00 of today or of tomorrow, and the time of day of \<open>now\<close> moved
  one day ahead is on tomorrow's date): if \<open>now\<close> is before today's 08:00:00 local time,
  the first forecast run is today at 08:00:00 local time (to the second); if \<open>now\<close> is
  at least one second past today's 08:00:00, the first run is tomorrow at 08:00:00
  local time (to the second), whatever the length of the day between.  The repeating
  timer is set when the job of the first run has completed, with the fixed period of
  24 hours (8.64e7 ms): the second run is 24 hours after the end of the first run's
  job, and every later run is exactly 24 hours after the run before it; no run is
  recomputed against wall-clock 08:00.
\<close>

theorem forecast_timeline:
  assumes "regular_clock rt now"
  shows
  "(now < today_at_8 rt now \<longrightarrow>
      today_at_8 rt now \<le> forecastRun rt now jobTime 0 \<and>
      forecastRun rt now jobTime 0 < today_at_8 rt now + 1000 \<and>
      Day (LocalTime rt (forecastRun rt now jobTime 0)) = Day (LocalTime rt now) \<and>
      HourFromTime (LocalTime rt (forecastRun rt now jobTime 0)) = 8 \<and>
      MinFromTime (LocalTime rt (forecastRun rt now jobTime 0)) = 0 \<and>
      SecFromTime (LocalTime rt (forecastRun rt now jobTime 0)) = 0) \<and>
   (today_at_8 rt now + 1000 \<le> now \<longrightarrow>
      tomorrow_at_8 rt now \<le> forecastRun rt now jobTime 0 \<and>
      forecastRun rt now jobTime 0 < tomorrow_at_8 rt now + 1000 \<and>
      Day (LocalTime rt (forecastRun rt now jobTime 0)) = Day (LocalTime rt now) + 1 \<and>
      HourFromTime (LocalTime rt (forecastRun rt now jobTime 0)) = 8 \<and>
      MinFromTime (LocalTime rt (forecastRun rt now jobTime 0)) = 0 \<and>
      SecFromTime (LocalTime rt (forecastRun rt now jobTime 0)) = 0) \<and>
   forecastRun rt now jobTime 1 = forecastRun rt now jobTime 0 + jobTime + 86400000 \<and>
   (\<forall>k. forecastRun rt now jobTime (Suc (Suc k)) = forecastRun rt now jobTime (Suc k) + 86400000) \<and>
   oneDayInMs = 24 * 60 * 60 * 1000"
proof (intro conjI impI allI)
  define m where "m = msFromTime (LocalTime rt now)"
  define d where "d = Day (LocalTime rt now)"
  have m: "0 \<le> m" "m < 1000" by (simp_all add: m_def msFromTime_bounds)
  from assms have s0: "steady_second rt (MakeDate d (MakeTime 8 0 0 0))"
    and s1: "steady_second rt (MakeDate (d + 1) (MakeTime 8 0 0 0))"
    by (simp_all add: regular_clock_def Let_def d_def)
  {
    assume "now < today_at_8 rt now"
    then have r: "forecastRun rt now jobTime 0 = UTC rt (MakeDate d (MakeTime 8 0 0 0)) + m"
      using assms by (simp add: setTimeout_timeLeft startDate_before m_def today_at_8_def d_def)
    from r m show "today_at_8 rt now \<le> forecastRun rt now jobTime 0"
      and "forecastRun rt now jobTime 0 < today_at_8 rt now + 1000"
      by (simp_all add: today_at_8_def d_def)
    note l = steady_second_UTC(2)[OF s0 m]
    show "Day (LocalTime rt (forecastRun rt now jobTime 0)) = Day (LocalTime rt now)"
      unfolding r l d_def[symmetric] by (rule day_fields(1)[OF m])
    show "HourFromTime (LocalTime rt (forecastRun rt now jobTime 0)) = 8"
      unfolding r l by (rule day_fields(2)[OF m])
    show "MinFromTime (LocalTime rt (forecastRun rt now jobTime 0)) = 0"
      unfolding r l by (rule day_fields(3)[OF m])
    show "SecFromTime (LocalTime rt (forecastRun rt now jobTime 0)) = 0"
      unfolding r l by (rule day_fields(4)[OF m])
  }
  {
    assume "today_at_8 rt now + 1000 \<le> now"
    then have r: "forecastRun rt now jobTime 0 = UTC rt (MakeDate (d + 1) (MakeTime 8 0 0 0)) + m"
      using assms by (simp add: setTimeout_timeLeft startDate_after m_def tomorrow_at_8_def d_def)
    from r m show "tomorrow_at_8 rt now \<le> forecastRun rt now jobTime 0"
      and "forecastRun rt now jobTime 0 < tomorrow_at_8 rt now + 1000"
      by (simp_all add: tomorrow_at_8_def d_def)
    note l = steady_second_UTC(2)[OF s1 m]
    show "Day (LocalTime rt (forecastRun rt now jobTime 0)) = Day (LocalTime rt now) + 1"
      unfolding r l d_def[symmetric] by (rule day_fields(1)[OF m])
    show "HourFromTime (LocalTime rt (forecastRun rt now jobTime 0)) = 8"
      unfolding r l by (rule day_fields(2)[OF m])
    show "MinFromTime (LocalTime rt (forecastRun rt now jobTime 0)) = 0"
      unfolding r l by (rule day_fields(3)[OF m])
    show "SecFromTime (LocalTime rt (forecastRun rt now jobTime 0)) = 0"
      unfolding r l by (rule day_fields(4)[OF m])
  }
  show "forecastRun rt now jobTime 1 = forecastRun rt now jobTime 0 + jobTime + 86400000"
    by (simp add: setInterval_run_def setTimeout_run_def oneDayInMs_def)
  show "forecastRun rt now jobTime (Suc (Suc k)) = forecastRun rt now jobTime (Suc k) + 86400000" for k
    by (simp add: setInterval_run_def oneDayInMs_def algebra_simps)
  show "oneDayInMs = 24 * 60 * 60 * 1000"
    by (simp add: oneDayInMs_def)
qed

text \<open>
  Two instances.  On the UTC host at 07:00:00 the first run is the same day at
  08:00:00.  On the Pacific host at 09:00 local time of 2020-03-07, the day before the
  clock change, the first run is at 08:00:00 local time of 2020-03-08, which is 22 hours
  later, not 23.
\<close>

theorem forecast_timeline_witness:
  "regular_clock utc_host 1589180400000 \<and>
   1589180400000 < today_at_8 utc_host 1589180400000 \<and>
   forecastRun utc_host 1589180400000 1500 0 = 1589184000000 \<and>
   Day (LocalTime utc_host (forecastRun utc_host 1589180400000 1500 0)) = Day (LocalTime utc_host 1589180400000) \<and>
   HourFromTime (LocalTime utc_host (forecastRun utc_host 1589180400000 1500 0)) = 8 \<and>
   regular_clock pacific_host 1583600400000 \<and>
   today_at_8 pacific_host 1583600400000 + 1000 \<le> 1583600400000 \<and>
   timeLeft pacific_host 1583600400000 = 79200000 \<and>
   forecastRun pacific_host 1583600400000 1500 0 = tomorrow_at_8 pacific_host 1583600400000 \<and>
   Day (LocalTime pacific_host (forecastRun pacific_host 1583600400000 1500 0))
     = Day (LocalTime pacific_host 1583600400000) + 1 \<and>
   HourFromTime (LocalTime pacific_host (forecastRun pacific_host 1583600400000 1500 0)) = 8 \<and>
   forecastRun pacific_host 1583600400000 1500 (Suc (Suc 0))
     = forecastRun pacific_host 1583600400000 1500 (Suc 0) + 86400000"
proof -
  have h1: "1589180400000 < today_at_8 utc_host 1589180400000"
    and h2: "today_at_8 pacific_host 1583600400000 + 1000 \<le> 1583600400000"
    and v1: "forecastRun utc_host 1589180400000 1500 0 = 1589184000000"
    and v2: "timeLeft pacific_host 1583600400000 = 79200000"
    and v3: "forecastRun pacific_host 1583600400000 1500 0 = tomorrow_at_8 pacific_host 1583600400000"
    by code_simp+
  note c1 = regular_clock_utc_host[of 1589180400000] and c2 = regular_clock_pacific_host
  from forecast_timeline [OF c1, of 1500] h1
  have a: "Day (LocalTime utc_host (forecastRun utc_host 1589180400000 1500 0)) = Day (LocalTime utc_host 1589180400000)"
    "HourFromTime (LocalTime utc_host (forecastRun utc_host 1589180400000 1500 0)) = 8"
    by blast+
  from forecast_timeline [OF c2, of 1500] h2
  have b: "Day (LocalTime pacific_host (forecastRun pacific_host 1583600400000 1500 0))
       = Day (LocalTime pacific_host 1583600400000) + 1"
    "HourFromTime (LocalTime pacific_host (forecastRun pacific_host 1583600400000 1500 0)) = 8"
    "forecastRun pacific_host 1583600400000 1500 (Suc (Suc 0))
       = forecastRun pacific_host 1583600400000 1500 (Suc 0) + 86400000"
    by blast+
  from c1 c2 h1 h2 v1 v2 v3 a b show ?thesis by blast
qed

text \<open>
  The claim as stated fails in two places.  At 08:00:00.500, which is after today's
  08:00, the start date computed is the current time itself (the milliseconds are kept
  by \<^verbatim>\<open>setHours(8, 0, 0)\<close>), so the first run is today, at once, and not tomorrow.
  And when the job of the first run takes 1500 ms, the second run is 24 hours and
  1500 ms after the first.
\<close>

theorem forecast_timeline_counterexample:
  "today_at_8 utc_host 1589184000500 = 1589184000000 \<and>
   forecastRun utc_host 1589184000500 1500 0 = 1589184000500 \<and>
   today_at_8 utc_host 1589180400000 = 1589184000000 \<and>
   forecastRun utc_host 1589180400000 1500 0 = 1589184000000 \<and>
   forecastRun utc_host 1589180400000 1500 1 = 1589184000000 + 1500 + 86400000"
  by code_simp

section \<open>Further properties\<close>

text \<open>
  The threshold table of the alert job has an entry for each indicator of the indicator
  set, so in the program as written no comparison is made with a missing entry.
\<close>

lemma thresholds_complete:
  "map thresholds AIR_QUALITY_INDICATOR =
     [Some 204, Some 45, Some 145, Some 230, Some 7000, Some (131 :: int)]"
  by (simp add: thresholds_def AIR_QUALITY_INDICATOR_def)

lemma formatted_entries_have_thresholds:
  assumes "formatAirQualityData d = Inr formatted" and "e \<in> set formatted"
  shows "\<exists>t. thresholds (indicator e) = Some (t :: 'n :: linordered_idom)"
proof -
  from assms(1) have "length formatted = 6"
    by (simp add: formatAirQualityData_Inr length_indicators)
  with assms(2) obtain i where i: "i < 6" "e = formatted ! i"
    by (auto simp: in_set_conv_nth)
  from formatAirQualityData_nth[OF assms(1) i(1)] i
  have "indicator e \<in> set AIR_QUALITY_INDICATOR"
    by (simp add: length_indicators)
  then show ?thesis
    by (auto simp: AIR_QUALITY_INDICATOR_def thresholds_def)
qed

text \<open>
  queryBuilder on the options of the specification's example, as an instance of its
  agreement with the specification.
\<close>

theorem queryBuilder_spec_witness:
  "distinct (map fst [(''a'', JNum (1 :: int)), (''b'', JArr [JStr ''x'', JStr ''y''])]) \<and>
   list_all (\<lambda>p. last p \<noteq> CHR ''?'')
     (spec_params show_int [(''a'', JNum 1), (''b'', JArr [JStr ''x'', JStr ''y''])]) \<and>
   queryBuilder show_int ''u'' [(''a'', JNum 1), (''b'', JArr [JStr ''x'', JStr ''y''])]
     = ''u?a=1&b=x&b=y''"
proof -
  have d: "distinct (map fst [(''a'', JNum (1 :: int)), (''b'', JArr [JStr ''x'', JStr ''y''])])"
    by simp
  have p: "spec_params show_int [(''a'', JNum 1), (''b'', JArr [JStr ''x'', JStr ''y''])]
      = [''a=1'', ''b=x'', ''b=y'']"
    by code_simp
  then have q: "\<forall>p\<in>set (spec_params show_int [(''a'', JNum 1), (''b'', JArr [JStr ''x'', JStr ''y''])]).
      last p \<noteq> CHR ''?''"
    by simp
  from queryBuilder_spec [OF d q, of "''u''"] p d q show ?thesis
    by (simp add: spec_queryBuilder_def list_all_iff)
qed

text \<open>
  The filter of the forecast job compares days of the week.  For an observation time
  less than seven days from the current time this is the comparison of the local
  calendar days: within that horizon the filter keeps exactly the records of today.
\<close>

lemma same_weekday_same_day:
  assumes "\<bar>Day (LocalTime rt t) - Day (LocalTime rt now)\<bar> < 7"
  shows "WeekDay (LocalTime rt t) = WeekDay (LocalTime rt now)
           \<longleftrightarrow> Day (LocalTime rt t) = Day (LocalTime rt now)"
proof -
  define a where "a = Day (LocalTime rt t)"
  define b where "b = Day (LocalTime rt now)"
  from assms have h: "\<bar>a - b\<bar> < 7" by (simp add: a_def b_def)
  have "(a + 4) mod 7 = (b + 4) mod 7 \<longleftrightarrow> a = b"
  proof
    assume "(a + 4) mod 7 = (b + 4) mod 7"
    then have "((a + 4) - (b + 4)) mod 7 = 0"
      by (simp add: mod_eq_dvd_iff)
    then have dvd: "7 dvd (a - b)" by (simp add: mod_eq_0_iff_dvd)
    have "a - b = 0"
    proof (rule ccontr)
      assume "a - b \<noteq> 0"
      from dvd_imp_le_int[OF this dvd] h show False by simp
    qed
    then show "a = b" by simp
  next
    assume "a = b"
    then show "(a + 4) mod 7 = (b + 4) mod 7" by simp
  qed
  then show ?thesis
    by (simp add: WeekDay_def a_def b_def)
qed

theorem same_weekday_same_day_witness:
  "\<bar>Day (LocalTime utc_host 1589270400000) - Day (LocalTime utc_host 1589180400000)\<bar> < 7 \<and>
   WeekDay (LocalTime utc_host 1589270400000) \<noteq> WeekDay (LocalTime utc_host 1589180400000) \<and>
   Day (LocalTime utc_host 1589270400000) \<noteq> Day (LocalTime utc_host 1589180400000)"
proof -
  have h: "\<bar>Day (LocalTime utc_host 1589270400000) - Day (LocalTime utc_host 1589180400000)\<bar> < 7"
    and w: "WeekDay (LocalTime utc_host 1589270400000) \<noteq> WeekDay (LocalTime utc_host 1589180400000)"
    by code_simp+
  from same_weekday_same_day [OF h] w h show ?thesis by simp
qed

end
